theory Spec2Isabelle
  imports Main
begin

section \<open>Python text\<close>

text \<open>
  A Python \<open>str\<close> is a list of 8-bit characters here, read as the code points below
  256; the text of a token, a tag name or a title with a code point from 256 on is outside
  the embedding.

  \<open>str.lower\<close> on these code points: the letters A to Z and the capital letters of the
  upper half (192 to 222, without the multiplication sign 215) move up by 32.
\<close>

definition lower_char :: "char \<Rightarrow> char" where
  "lower_char c =
     (let n = (of_char c :: nat)
      in if (65 \<le> n \<and> n \<le> 90) \<or> (192 \<le> n \<and> n \<le> 222 \<and> n \<noteq> 215)
         then char_of (n + 32) else c)"

definition lower :: "string \<Rightarrow> string" where
  "lower s = map lower_char s"

text \<open>
  \<open>int(subject)\<close> for a \<open>str\<close>, in base 10, as CPython reads it: blanks are
  skipped on both sides, one sign may come first, then decimal digits with single
  underscores between digits; anything else is a \<open>ValueError\<close>, here \<open>None\<close>.
  The blanks of \<open>int\<close> are tab, line feed, vertical tab, form feed, carriage return
  and space, and of the upper half the next-line character 133 and the no-break space 160.
  The separators 28 to 31, which \<open>str.strip\<close> removes, are no blanks for \<open>int\<close>.
\<close>

definition is_space :: "char \<Rightarrow> bool" where
  "is_space c =
     (let n = (of_char c :: nat) in (9 \<le> n \<and> n \<le> 13) \<or> n = 32 \<or> n = 133 \<or> n = 160)"

definition is_digit :: "char \<Rightarrow> bool" where
  "is_digit c = (let n = (of_char c :: nat) in 48 \<le> n \<and> n \<le> 57)"

definition digit_of :: "char \<Rightarrow> nat" where
  "digit_of c = of_char c - 48"

text \<open>
  The scan over digits and underscores: the value and the number of the digits read so
  far, and whether the character before was a digit. An underscore needs a digit on both
  sides. The scan stops at the first character that is neither and returns the rest.
\<close>

fun parse_digits :: "nat \<Rightarrow> nat \<Rightarrow> bool \<Rightarrow> string \<Rightarrow> (nat \<times> nat \<times> string) option" where
  "parse_digits acc digits after_digit [] =
     (if after_digit then Some (acc, digits, []) else None)"
| "parse_digits acc digits after_digit (c # cs) =
     (if c = CHR ''_'' then
        (if after_digit then parse_digits acc digits False cs else None)
      else if is_digit c then parse_digits (10 * acc + digit_of c) (digits + 1) True cs
      else if after_digit then Some (acc, digits, c # cs)
      else None)"

text \<open>
  \<open>max_str_digits\<close> is the interpreter's limit on the digits of an integer text
  (\<open>sys.get_int_max_str_digits()\<close>, 4300 unless configured, 0 for no limit, absent
  from older interpreters): a text of more than 640 digits that exceeds it is a
  \<open>ValueError\<close> too.
\<close>

definition py_int :: "nat \<Rightarrow> string \<Rightarrow> int option" where
  "py_int max_str_digits s =
     (let str = dropWhile is_space s;
          negative = (str \<noteq> [] \<and> hd str = CHR ''-'');
          str = (if str \<noteq> [] \<and> (hd str = CHR ''+'' \<or> hd str = CHR ''-'') then tl str else str)
      in case parse_digits 0 0 False str of
           None \<Rightarrow> None
         | Some (n, digits, rest) \<Rightarrow>
             if dropWhile is_space rest = [] then
               (if 640 < digits \<and> 0 < max_str_digits \<and> max_str_digits < digits then None
                else Some (if negative then - int n else int n))
             else None)"

text \<open>
  What the validation of a field declared \<open>bool\<close> makes of a \<open>str\<close>: twelve words
  are read as a truth value, the letters in either case; every other text is refused.
\<close>

definition bool_of_str :: "string \<Rightarrow> bool option" where
  "bool_of_str s =
     (if s = ''1'' \<or> lower s \<in> set [''t'', ''y'', ''on'', ''yes'', ''true''] then Some True
      else if s = ''0'' \<or> lower s \<in> set [''f'', ''n'', ''no'', ''off'', ''false''] then Some False
      else None)"

section \<open>Data model (models/journal.py)\<close>

text \<open>
  The handlers of the journal router are embedded over an in-memory store: one list of
  rows per table, in table order. \<open>session.add\<close> followed by \<open>session.commit\<close> is
  the store update. A commit checks what models/journal.py declares and every database
  engine enforces: the NOT NULL columns \<open>title\<close> and \<open>is_private\<close> of a journal
  and the composite primary key of \<open>journal_tag_link\<close>. A refused commit raises
  \<open>IntegrityError\<close> and leaves the store as it was before the handler.
  What only some engines enforce is not part of the embedding: foreign keys, the length
  limits of the string columns, and the check of a value against the type of its column.
  A \<open>datetime\<close> is an integer instant.
\<close>

type_synonym datetime = int

text \<open>
  \<open>deleted_at\<close> is declared \<open>Optional[datetime]\<close>, but \<open>delete_journal\<close>
  assigns a Python string to it, so the attribute ranges over both kinds of value.
\<close>

datatype stamp = Datetime datetime | Literal string

text \<open>
  Modelled from the spec: models/user.py is not part of the sources; the handlers read
  \<open>id\<close>, \<open>name\<close> and \<open>profile_image_url\<close> of a User.
\<close>

record User =
  u_id :: int
  u_name :: string
  u_profile_image_url :: "string option"

text \<open>
  Modelled from the spec: the Comment model is not part of the sources; the feed only
  counts the comments of a journal.
\<close>

record Comment =
  c_id :: int
  c_journal_id :: int
  c_user_id :: int
  c_body :: string

record Tag =
  t_id :: int
  t_name :: string

text \<open>A row of \<open>journals\<close>: \<open>title\<close> and \<open>is_private\<close> are never null.\<close>

record Journal =
  j_id :: int
  j_user_id :: int
  j_title :: string
  j_body_snippet :: "string option"
  j_html_content :: "string option"
  j_is_private :: bool
  j_image_url :: "string option"
  j_is_deleted :: bool
  j_deleted_at :: "stamp option"
  j_created_at :: datetime
  j_updated_at :: datetime

record JournalReactions =
  jr_id :: int
  jr_journal_id :: int
  jr_user_id :: int
  jr_reaction_type :: string
  jr_created_at :: datetime

record JournalFavorites =
  jf_id :: int
  jf_journal_id :: int
  jf_user_id :: int
  jf_created_at :: datetime

record JournalShares =
  js_id :: int
  js_journal_id :: int
  js_user_id :: int
  js_share_type :: string
  js_shared_at :: datetime

record JournalReports =
  jp_id :: int
  jp_journal_id :: int
  jp_reporter_id :: int
  jp_reason :: string
  jp_status :: string
  jp_created_at :: datetime
  jp_resolved_at :: "datetime option"

text \<open>The store: \<open>journal_tag_link\<close> holds the pairs (journal id, tag id).\<close>

record db =
  users :: "User list"
  journals :: "Journal list"
  tags :: "Tag list"
  journal_tag_link :: "(int \<times> int) list"
  comments :: "Comment list"
  journal_reactions :: "JournalReactions list"
  journal_favorites :: "JournalFavorites list"
  journal_shares :: "JournalShares list"
  journal_reports :: "JournalReports list"

text \<open>
  An \<open>HTTPException\<close> carries its status code and detail. \<open>AttributeError\<close> is
  the Python error of reading an attribute of \<open>None\<close>, \<open>ValidationError\<close> the
  error of a model that refuses a field (it carries the field's name), and
  \<open>IntegrityError\<close> the error of a refused commit (it carries the table's name). No
  handler catches any of them.
\<close>

datatype error =
    HTTPException int string
  | AttributeError string
  | ValidationError string
  | IntegrityError string

definition HTTP_401_UNAUTHORIZED :: int where
  "HTTP_401_UNAUTHORIZED = 401"

definition HTTP_404_NOT_FOUND :: int where
  "HTTP_404_NOT_FOUND = 404"

section \<open>The response envelope (schemas/common.py)\<close>

text \<open>
  The envelope has the fields \<open>status: bool = True\<close>, \<open>message\<close> and
  \<open>data\<close>. The handlers build it without a type parameter, so \<open>data\<close> is taken as
  it is; the keywords \<open>success\<close> and \<open>code\<close> name no field and are ignored.
\<close>

record 'a APIResponse =
  status :: bool
  message :: string
  data :: 'a

text \<open>
  The constructor call. \<open>status_keyword\<close> is \<open>None\<close> when the call passes no
  \<open>status\<close>, and the text when it passes a \<open>str\<close>, which the field's validation
  reads or refuses.
\<close>

definition APIResponse :: "string option \<Rightarrow> string \<Rightarrow> 'a \<Rightarrow> error + 'a APIResponse" where
  "APIResponse status_keyword message_keyword data_keyword =
     (case status_keyword of
        None \<Rightarrow> Inr \<lparr>status = True, message = message_keyword, data = data_keyword\<rparr>
      | Some s \<Rightarrow>
          (case bool_of_str s of
             None \<Rightarrow> Inl (ValidationError ''status'')
           | Some b \<Rightarrow> Inr \<lparr>status = b, message = message_keyword, data = data_keyword\<rparr>))"

section \<open>Rows and keys\<close>

text \<open>The primary key a table gives to a new row: one more than the largest key in it.\<close>

definition next_id :: "int list \<Rightarrow> int" where
  "next_id ids = fold max ids 0 + 1"

text \<open>\<open>session.get(Journal, journal_id)\<close>: the row with that primary key.\<close>

definition session_get_journal :: "db \<Rightarrow> int \<Rightarrow> Journal option" where
  "session_get_journal d journal_id = find (\<lambda>j. j_id j = journal_id) (journals d)"

text \<open>Writing a changed journal back: the first row with its primary key is replaced.\<close>

fun put_row :: "Journal \<Rightarrow> Journal list \<Rightarrow> Journal list" where
  "put_row j [] = []"
| "put_row j (r # rs) = (if j_id r = j_id j then j # rs else r # put_row j rs)"

definition commit_journal :: "db \<Rightarrow> Journal \<Rightarrow> db" where
  "commit_journal d j = d\<lparr>journals := put_row j (journals d)\<rparr>"

section \<open>Schemas (schemas/journal.py)\<close>

text \<open>
  A field of an update payload is either absent from the request body (\<open>Unset\<close>) or
  given; \<open>model_dump(exclude_unset=True)\<close> keeps the given ones. Every field of
  \<open>JournalUpdate\<close> is \<open>Optional\<close>, so a given value may be \<open>None\<close>.
\<close>

datatype 'a field = Unset | Given 'a

record JournalUpdate =
  ju_title :: "string option field"
  ju_body_snippet :: "string option field"
  ju_html_content :: "string option field"
  ju_is_private :: "bool option field"
  ju_image_url :: "string option field"

section \<open>Updating and deleting a journal\<close>

text \<open>One \<open>setattr(journal, key, value)\<close> per key of the dump.\<close>

definition set_field :: "'a field \<Rightarrow> 'a \<Rightarrow> 'a" where
  "set_field f old = (case f of Unset \<Rightarrow> old | Given v \<Rightarrow> v)"

text \<open>
  The \<open>setattr\<close> loop and what the commit makes of it. After the loop the attributes
  \<open>title\<close> and \<open>is_private\<close> hold their old value or the given one, which may be
  \<open>None\<close>; their columns are NOT NULL, so with a \<open>None\<close> in one of them the
  commit is refused and there is no new row (\<open>None\<close>).
\<close>

definition apply_update :: "Journal \<Rightarrow> JournalUpdate \<Rightarrow> Journal option" where
  "apply_update journal journal_data =
     (case set_field (ju_title journal_data) (Some (j_title journal)) of
        None \<Rightarrow> None
      | Some title \<Rightarrow>
          (case set_field (ju_is_private journal_data) (Some (j_is_private journal)) of
             None \<Rightarrow> None
           | Some is_private \<Rightarrow>
               Some (journal\<lparr>j_title := title,
                      j_body_snippet :=
                        set_field (ju_body_snippet journal_data) (j_body_snippet journal),
                      j_html_content :=
                        set_field (ju_html_content journal_data) (j_html_content journal),
                      j_is_private := is_private,
                      j_image_url :=
                        set_field (ju_image_url journal_data) (j_image_url journal)\<rparr>)))"

definition journal_not_found :: error where
  "journal_not_found = HTTPException HTTP_404_NOT_FOUND ''Journal not found''"

text \<open>
  Both handlers build their envelope after the commit, with \<open>status="success"\<close>.
\<close>

definition update_journal ::
  "db \<Rightarrow> User \<Rightarrow> int \<Rightarrow> JournalUpdate \<Rightarrow> db \<times> (error + Journal APIResponse)" where
  "update_journal d current_user journal_id journal_data =
     (case session_get_journal d journal_id of
        None \<Rightarrow> (d, Inl journal_not_found)
      | Some journal \<Rightarrow>
          if j_user_id journal \<noteq> u_id current_user then (d, Inl journal_not_found)
          else
            (case apply_update journal journal_data of
               None \<Rightarrow> (d, Inl (IntegrityError ''journals''))
             | Some journal' \<Rightarrow>
                 (commit_journal d journal',
                  APIResponse (Some ''success'') ''Journal updated successfully'' journal')))"

definition delete_journal ::
  "db \<Rightarrow> User \<Rightarrow> int \<Rightarrow> db \<times> (error + unit APIResponse)" where
  "delete_journal d current_user journal_id =
     (case session_get_journal d journal_id of
        None \<Rightarrow> (d, Inl journal_not_found)
      | Some journal \<Rightarrow>
          if j_user_id journal \<noteq> u_id current_user then (d, Inl journal_not_found)
          else
            let journal' = journal\<lparr>j_is_deleted := True,
                                   j_deleted_at := Some (Literal ''CURRENT_TIMESTAMP'')\<rparr>
            in (commit_journal d journal',
                APIResponse (Some ''success'') ''Journal deleted successfully'' ()))"

section \<open>Relationships and the feed projection\<close>

record JournalFeedUserResponse =
  fu_id :: int
  fu_name :: string
  fu_profile_image_url :: "string option"

record TagResponse =
  tr_id :: int
  tr_name :: string

record JournalFeedResponse =
  f_id :: int
  f_user :: JournalFeedUserResponse
  f_image_url :: "string option"
  f_title :: string
  f_body_snippet :: "string option"
  f_html_content :: "string option"
  f_created_at :: datetime
  f_comment_count :: nat
  f_share_count :: nat
  f_is_favorite :: bool
  f_tags :: "TagResponse list"
  f_is_private :: bool

text \<open>\<open>journal.user\<close>, \<open>journal.comments\<close> and \<open>journal.tags\<close>.\<close>

definition journal_user :: "db \<Rightarrow> Journal \<Rightarrow> User option" where
  "journal_user d journal = find (\<lambda>u. u_id u = j_user_id journal) (users d)"

definition journal_comments :: "db \<Rightarrow> Journal \<Rightarrow> Comment list" where
  "journal_comments d journal = filter (\<lambda>c. c_journal_id c = j_id journal) (comments d)"

definition journal_tags :: "db \<Rightarrow> Journal \<Rightarrow> Tag list" where
  "journal_tags d journal =
     filter (\<lambda>t. (j_id journal, t_id t) \<in> set (journal_tag_link d)) (tags d)"

text \<open>
  \<open>tag.journals\<close>: the join of the link rows of the tag with the journals. The
  statement has no ORDER BY, so the order is the engine's; the rows are listed here link
  row by link row, as SQLite returns them.
\<close>

definition tag_journals :: "db \<Rightarrow> Tag \<Rightarrow> Journal list" where
  "tag_journals d tag =
     concat (map (\<lambda>(journal_id, tag_id).
                    if tag_id = t_id tag then filter (\<lambda>j. j_id j = journal_id) (journals d)
                    else [])
               (journal_tag_link d))"

text \<open>
  The body of the feed loops: \<open>journal.user.id\<close> fails when the journal has no user
  row; the share count and the favorite flag come from the caller of this function.
\<close>

definition feed_entry :: "db \<Rightarrow> Journal \<Rightarrow> nat \<Rightarrow> bool \<Rightarrow> error + JournalFeedResponse" where
  "feed_entry d journal share_count is_favorite =
     (case journal_user d journal of
        None \<Rightarrow> Inl (AttributeError ''id'')
      | Some user \<Rightarrow>
          Inr \<lparr>f_id = j_id journal,
               f_user = \<lparr>fu_id = u_id user, fu_name = u_name user,
                          fu_profile_image_url = u_profile_image_url user\<rparr>,
               f_image_url = j_image_url journal,
               f_title = j_title journal,
               f_body_snippet = j_body_snippet journal,
               f_html_content = j_html_content journal,
               f_created_at = j_created_at journal,
               f_comment_count = length (journal_comments d journal),
               f_share_count = share_count,
               f_is_favorite = is_favorite,
               f_tags = map (\<lambda>tag. \<lparr>tr_id = t_id tag, tr_name = t_name tag\<rparr>)
                          (journal_tags d journal),
               f_is_private = j_is_private journal\<rparr>)"

subsection \<open>The batched strategy\<close>

text \<open>
  \<open>select(journal_id, count(id)) ... where journal_id in ids group by journal_id\<close>:
  one row per journal id that has a share, with the number of its shares.
\<close>

definition shares_counts_result :: "db \<Rightarrow> int list \<Rightarrow> (int \<times> nat) list" where
  "shares_counts_result d journal_ids =
     (let keys = map js_journal_id
                   (filter (\<lambda>s. js_journal_id s \<in> set journal_ids) (journal_shares d))
      in map (\<lambda>k. (k, count_list keys k)) (remdups keys))"

text \<open>Python's \<open>dict(rows)\<close>: a later row with the same key overwrites.\<close>

definition py_dict :: "('k \<times> 'v) list \<Rightarrow> ('k \<rightharpoonup> 'v)" where
  "py_dict rows = fold (\<lambda>(k, v) m. m(k \<mapsto> v)) rows Map.empty"

definition dict_get :: "('k \<rightharpoonup> 'v) \<Rightarrow> 'k \<Rightarrow> 'v \<Rightarrow> 'v" where
  "dict_get m k dflt = (case m k of None \<Rightarrow> dflt | Some v \<Rightarrow> v)"

definition user_favorites_result :: "db \<Rightarrow> int list \<Rightarrow> int \<Rightarrow> int list" where
  "user_favorites_result d journal_ids uid =
     map jf_journal_id
       (filter (\<lambda>f. jf_journal_id f \<in> set journal_ids \<and> jf_user_id f = uid)
          (journal_favorites d))"

text \<open>The loop of the three per-user feeds: the entries are appended in page order.\<close>

fun feed_batched ::
  "db \<Rightarrow> (int \<rightharpoonup> nat) \<Rightarrow> int set \<Rightarrow> Journal list \<Rightarrow> JournalFeedResponse list
   \<Rightarrow> error + JournalFeedResponse list" where
  "feed_batched d shares_map favorite_journal_ids [] feed = Inr feed"
| "feed_batched d shares_map favorite_journal_ids (journal # rest) feed =
     (case feed_entry d journal (dict_get shares_map (j_id journal) 0)
             (j_id journal \<in> favorite_journal_ids) of
        Inl e \<Rightarrow> Inl e
      | Inr entry \<Rightarrow> feed_batched d shares_map favorite_journal_ids rest (feed @ [entry]))"

text \<open>
  The loop of \<open>get_all_journals\<close>: the feed is sorted again after every append,
  newest first; Python's sort is stable, also with \<open>reverse=True\<close>.
\<close>

fun feed_batched_sorted ::
  "db \<Rightarrow> (int \<rightharpoonup> nat) \<Rightarrow> int set \<Rightarrow> Journal list \<Rightarrow> JournalFeedResponse list
   \<Rightarrow> error + JournalFeedResponse list" where
  "feed_batched_sorted d shares_map favorite_journal_ids [] feed = Inr feed"
| "feed_batched_sorted d shares_map favorite_journal_ids (journal # rest) feed =
     (case feed_entry d journal (dict_get shares_map (j_id journal) 0)
             (j_id journal \<in> favorite_journal_ids) of
        Inl e \<Rightarrow> Inl e
      | Inr entry \<Rightarrow>
          feed_batched_sorted d shares_map favorite_journal_ids rest
            (sort_key (\<lambda>x. - f_created_at x) (feed @ [entry])))"

subsection \<open>The per-journal strategy\<close>

definition share_count_direct :: "db \<Rightarrow> int \<Rightarrow> nat" where
  "share_count_direct d journal_id =
     length (filter (\<lambda>s. js_journal_id s = journal_id) (journal_shares d))"

definition is_favorite_direct :: "db \<Rightarrow> int \<Rightarrow> int \<Rightarrow> bool" where
  "is_favorite_direct d journal_id uid =
     (find (\<lambda>f. jf_journal_id f = journal_id \<and> jf_user_id f = uid) (journal_favorites d)
        \<noteq> None)"

fun feed_direct ::
  "db \<Rightarrow> int \<Rightarrow> Journal list \<Rightarrow> JournalFeedResponse list \<Rightarrow> error + JournalFeedResponse list" where
  "feed_direct d uid [] feed = Inr feed"
| "feed_direct d uid (journal # rest) feed =
     (case feed_entry d journal (share_count_direct d (j_id journal))
             (is_favorite_direct d (j_id journal) uid) of
        Inl e \<Rightarrow> Inl e
      | Inr entry \<Rightarrow> feed_direct d uid rest (feed @ [entry]))"

section \<open>The listing handlers\<close>

text \<open>
  \<open>.offset(skip).limit(limit)\<close> on a result list. \<open>skip\<close> and \<open>limit\<close> are
  natural numbers here: what a negative offset or limit does depends on the database.
  \<open>order_by(created_at.desc())\<close> is a stable descending sort of the table order.
  The listings build their envelope without a \<open>status\<close> keyword.
\<close>

definition offset_limit :: "nat \<Rightarrow> nat \<Rightarrow> 'a list \<Rightarrow> 'a list" where
  "offset_limit skip limit rows = take limit (drop skip rows)"

definition order_by_created_at_desc :: "Journal list \<Rightarrow> Journal list" where
  "order_by_created_at_desc rows = sort_key (\<lambda>j. - j_created_at j) rows"

definition journals_retrieved ::
  "JournalFeedResponse list \<Rightarrow> error + JournalFeedResponse list APIResponse" where
  "journals_retrieved feed = APIResponse None ''Journals retrieved successfully'' feed"

definition get_all_journals ::
  "db \<Rightarrow> User \<Rightarrow> nat \<Rightarrow> nat \<Rightarrow> error + JournalFeedResponse list APIResponse" where
  "get_all_journals d current_user skip limit =
     (let page = offset_limit skip limit (filter (\<lambda>j. j_is_deleted j = False) (journals d))
      in if page = [] then journals_retrieved []
         else
           let journal_ids = map j_id page;
               shares_map = py_dict (shares_counts_result d journal_ids);
               favorite_journal_ids = set (user_favorites_result d journal_ids (u_id current_user))
           in case feed_batched_sorted d shares_map favorite_journal_ids page [] of
                Inl e \<Rightarrow> Inl e
              | Inr feed \<Rightarrow> journals_retrieved feed)"

text \<open>
  The statement shared by \<open>get_user_journals\<close>, \<open>get_journals_by_user\<close> and
  \<open>get_my_journals\<close>, and the feed assembly the three handlers repeat.
\<close>

definition select_user_journals :: "db \<Rightarrow> int \<Rightarrow> nat \<Rightarrow> nat \<Rightarrow> Journal list" where
  "select_user_journals d uid skip limit =
     offset_limit skip limit
       (order_by_created_at_desc
          (filter (\<lambda>j. j_is_deleted j = False \<and> j_user_id j = uid) (journals d)))"

definition user_feed ::
  "db \<Rightarrow> User \<Rightarrow> Journal list \<Rightarrow> error + JournalFeedResponse list APIResponse" where
  "user_feed d current_user page =
     (if page = [] then journals_retrieved []
      else
        let journal_ids = map j_id page;
            shares_map = py_dict (shares_counts_result d journal_ids);
            favorite_journal_ids = set (user_favorites_result d journal_ids (u_id current_user))
        in case feed_batched d shares_map favorite_journal_ids page [] of
             Inl e \<Rightarrow> Inl e
           | Inr feed \<Rightarrow> journals_retrieved feed)"

definition get_user_journals ::
  "db \<Rightarrow> User \<Rightarrow> nat \<Rightarrow> nat \<Rightarrow> error + JournalFeedResponse list APIResponse" where
  "get_user_journals d current_user skip limit =
     user_feed d current_user (select_user_journals d (u_id current_user) skip limit)"

definition get_journals_by_user ::
  "db \<Rightarrow> User \<Rightarrow> int \<Rightarrow> nat \<Rightarrow> nat \<Rightarrow> error + JournalFeedResponse list APIResponse" where
  "get_journals_by_user d current_user user_id skip limit =
     user_feed d current_user (select_user_journals d user_id skip limit)"

definition get_my_journals ::
  "db \<Rightarrow> User \<Rightarrow> nat \<Rightarrow> nat \<Rightarrow> error + JournalFeedResponse list APIResponse" where
  "get_my_journals d current_user skip limit =
     user_feed d current_user (select_user_journals d (u_id current_user) skip limit)"

definition get_journals_by_tag ::
  "db \<Rightarrow> User \<Rightarrow> string \<Rightarrow> error + JournalFeedResponse list APIResponse" where
  "get_journals_by_tag d current_user tag_name =
     (case find (\<lambda>t. t_name t = tag_name) (tags d) of
        None \<Rightarrow> Inl (HTTPException HTTP_404_NOT_FOUND ''Tag not found'')
      | Some tag \<Rightarrow>
          (case feed_direct d (u_id current_user) (tag_journals d tag) [] of
             Inl e \<Rightarrow> Inl e
           | Inr feed \<Rightarrow>
               APIResponse None
                 (''Journals with tag '' @ [CHR 0x27] @ tag_name @ [CHR 0x27]
                    @ '' retrieved successfully'')
                 feed))"

text \<open>
  The retrieval by id and the two listings of reactions and favorites pass
  \<open>status="success"\<close> to the envelope.
\<close>

definition get_journal_by_id :: "db \<Rightarrow> int \<Rightarrow> error + Journal APIResponse" where
  "get_journal_by_id d journal_id =
     (case session_get_journal d journal_id of
        None \<Rightarrow> Inl journal_not_found
      | Some journal \<Rightarrow>
          if j_is_deleted journal then Inl journal_not_found
          else APIResponse (Some ''success'') ''Journal retrieved successfully'' journal)"

definition get_journal_reactions :: "db \<Rightarrow> int \<Rightarrow> error + JournalReactions list APIResponse" where
  "get_journal_reactions d journal_id =
     APIResponse (Some ''success'') ''Journal reactions retrieved successfully''
       (filter (\<lambda>r. jr_journal_id r = journal_id) (journal_reactions d))"

definition get_journal_favorites ::
  "db \<Rightarrow> User \<Rightarrow> error + JournalFavorites list APIResponse" where
  "get_journal_favorites d current_user =
     APIResponse (Some ''success'') ''Journal favorites retrieved successfully''
       (filter (\<lambda>f. jf_user_id f = u_id current_user) (journal_favorites d))"

section \<open>Creating rows\<close>

record JournalCreate =
  jc_title :: string
  jc_body_snippet :: "string option"
  jc_html_content :: "string option"
  jc_is_private :: bool
  jc_image_url :: "string option"
  jc_tags :: "string list"

record JournalReactionCreate =
  rc_journal_id :: int
  rc_reaction_type :: string

record JournalFavoriteCreate =
  fc_journal_id :: int

record JournalShareCreate =
  sc_journal_id :: int
  sc_share_type :: string

record JournalReportCreate =
  pc_journal_id :: int
  pc_reason :: string

text \<open>
  The tag loop of \<open>create_journal\<close>. The session flushes before each query, so a tag
  added in an earlier round is a row of \<open>tags\<close> when a later round looks its name
  up. \<open>attached\<close> is the list \<open>journal.tags\<close>: every round appends its tag, also
  one that is in the list already.
\<close>

fun attach_tags :: "string list \<Rightarrow> db \<Rightarrow> Tag list \<Rightarrow> db \<times> Tag list" where
  "attach_tags [] d attached = (d, attached)"
| "attach_tags (tag_name # rest) d attached =
     (case find (\<lambda>t. t_name t = tag_name) (tags d) of
        Some tag \<Rightarrow> attach_tags rest d (attached @ [tag])
      | None \<Rightarrow>
          let tag = \<lparr>t_id = next_id (map t_id (tags d)), t_name = tag_name\<rparr>
          in attach_tags rest (d\<lparr>tags := tags d @ [tag]\<rparr>) (attached @ [tag]))"

text \<open>
  \<open>now\<close> is the instant \<open>datetime.utcnow\<close> gives to the defaulted columns. The
  commit inserts the journal and one link row per entry of \<open>journal.tags\<close>. The pair
  of a link row is the primary key of \<open>journal_tag_link\<close>: when two of the new rows
  are equal, or one is in the table already, the commit is refused, and the tags of the
  loop are gone with it.
\<close>

definition create_journal ::
  "db \<Rightarrow> datetime \<Rightarrow> User \<Rightarrow> JournalCreate \<Rightarrow> db \<times> (error + Journal APIResponse)" where
  "create_journal d now current_user journal_data =
     (let journal = \<lparr>j_id = next_id (map j_id (journals d)),
                      j_user_id = u_id current_user,
                      j_title = jc_title journal_data,
                      j_body_snippet = jc_body_snippet journal_data,
                      j_html_content = jc_html_content journal_data,
                      j_is_private = jc_is_private journal_data,
                      j_image_url = jc_image_url journal_data,
                      j_is_deleted = False,
                      j_deleted_at = None,
                      j_created_at = now,
                      j_updated_at = now\<rparr>;
          (d1, attached) = (if jc_tags journal_data \<noteq> []
                            then attach_tags (jc_tags journal_data) d [] else (d, []));
          links = map (\<lambda>tag. (j_id journal, t_id tag)) attached
      in if distinct links \<and> set links \<inter> set (journal_tag_link d) = {}
         then (d1\<lparr>journals := journals d1 @ [journal],
                  journal_tag_link := journal_tag_link d1 @ links\<rparr>,
               APIResponse None ''Journal created successfully'' journal)
         else (d, Inl (IntegrityError ''journal_tag_link'')))"

text \<open>
  The four handlers of the satellite tables: the row takes the fields of the body and the
  id of \<open>current_user\<close>, it is committed, and then the envelope is built with
  \<open>status="success"\<close>.
\<close>

definition create_journal_reaction ::
  "db \<Rightarrow> datetime \<Rightarrow> User \<Rightarrow> JournalReactionCreate
   \<Rightarrow> db \<times> (error + JournalReactions APIResponse)" where
  "create_journal_reaction d now current_user journal_reaction_data =
     (let journal_reaction =
            \<lparr>jr_id = next_id (map jr_id (journal_reactions d)),
             jr_journal_id = rc_journal_id journal_reaction_data,
             jr_user_id = u_id current_user,
             jr_reaction_type = rc_reaction_type journal_reaction_data,
             jr_created_at = now\<rparr>
      in (d\<lparr>journal_reactions := journal_reactions d @ [journal_reaction]\<rparr>,
          APIResponse (Some ''success'') ''Journal reaction created successfully''
            journal_reaction))"

definition create_journal_favorite ::
  "db \<Rightarrow> datetime \<Rightarrow> User \<Rightarrow> JournalFavoriteCreate
   \<Rightarrow> db \<times> (error + JournalFavorites APIResponse)" where
  "create_journal_favorite d now current_user journal_favorite_data =
     (let journal_favorite =
            \<lparr>jf_id = next_id (map jf_id (journal_favorites d)),
             jf_journal_id = fc_journal_id journal_favorite_data,
             jf_user_id = u_id current_user,
             jf_created_at = now\<rparr>
      in (d\<lparr>journal_favorites := journal_favorites d @ [journal_favorite]\<rparr>,
          APIResponse (Some ''success'') ''Journal favorite created successfully''
            journal_favorite))"

definition create_journal_share ::
  "db \<Rightarrow> datetime \<Rightarrow> User \<Rightarrow> JournalShareCreate
   \<Rightarrow> db \<times> (error + JournalShares APIResponse)" where
  "create_journal_share d now current_user journal_share_data =
     (let journal_share =
            \<lparr>js_id = next_id (map js_id (journal_shares d)),
             js_journal_id = sc_journal_id journal_share_data,
             js_user_id = u_id current_user,
             js_share_type = sc_share_type journal_share_data,
             js_shared_at = now\<rparr>
      in (d\<lparr>journal_shares := journal_shares d @ [journal_share]\<rparr>,
          APIResponse (Some ''success'') ''Journal share created successfully''
            journal_share))"

definition create_journal_report ::
  "db \<Rightarrow> datetime \<Rightarrow> User \<Rightarrow> JournalReportCreate
   \<Rightarrow> db \<times> (error + JournalReports APIResponse)" where
  "create_journal_report d now current_user journal_report_data =
     (let journal_report =
            \<lparr>jp_id = next_id (map jp_id (journal_reports d)),
             jp_journal_id = pc_journal_id journal_report_data,
             jp_reporter_id = u_id current_user,
             jp_reason = pc_reason journal_report_data,
             jp_status = ''pending'',
             jp_created_at = now,
             jp_resolved_at = None\<rparr>
      in (d\<lparr>journal_reports := journal_reports d @ [journal_report]\<rparr>,
          APIResponse (Some ''success'') ''Journal report created successfully''
            journal_report))"

section \<open>The authentication dependency (security/dependencies.py)\<close>

record HTTPAuthorizationCredentials =
  scheme :: string
  credentials :: string

text \<open>
  The claim set of a decoded token. Only \<open>sub\<close> is read, and the subject of a JSON Web
  Token is a string, so the mapping sends a claim name to a string.
\<close>

type_synonym claims = "string \<rightharpoonup> string"

definition unauthorized :: "string \<Rightarrow> error" where
  "unauthorized detail = HTTPException HTTP_401_UNAUTHORIZED detail"

text \<open>
  Modelled from the spec: security/jwt.py is not part of the sources. The spec has a
  token with an invalid signature, a malformed structure or a passed expiry fail to
  decode, and has that failure surface as unauthorized; \<open>get_current_user\<close> catches
  nothing, so it is this helper that raises the 401. Which tokens verify, and with which
  claims, is the matter of the signing scheme, which the spec leaves open: \<open>verify\<close>
  is a parameter that returns the claims of a token or the detail of its failure.
\<close>

definition decode_access_token :: "(string \<Rightarrow> string + claims) \<Rightarrow> string \<Rightarrow> error + claims" where
  "decode_access_token verify token =
     (case verify token of
        Inl detail \<Rightarrow> Inl (unauthorized detail)
      | Inr claims \<Rightarrow> Inr claims)"

text \<open>\<open>not subject\<close> holds for a missing claim and for the empty string.\<close>

definition get_current_user ::
  "(string \<Rightarrow> string + claims) \<Rightarrow> nat \<Rightarrow> db \<Rightarrow> HTTPAuthorizationCredentials \<Rightarrow> error + User" where
  "get_current_user verify max_str_digits d auth_credentials =
     (if lower (scheme auth_credentials) \<noteq> ''bearer''
      then Inl (unauthorized ''Invalid authentication scheme'')
      else
        case decode_access_token verify (credentials auth_credentials) of
          Inl e \<Rightarrow> Inl e
        | Inr claims \<Rightarrow>
            (case claims ''sub'' of
               None \<Rightarrow> Inl (unauthorized ''Invalid token subject'')
             | Some subject \<Rightarrow>
                 if subject = [] then Inl (unauthorized ''Invalid token subject'')
                 else
                   (case py_int max_str_digits subject of
                      None \<Rightarrow> Inl (unauthorized ''Invalid token subject'')
                    | Some user_id \<Rightarrow>
                        (case find (\<lambda>u. u_id u = user_id) (users d) of
                           None \<Rightarrow> Inl (unauthorized ''User not found'')
                         | Some user \<Rightarrow> Inr user))))"

section \<open>The routes of the router\<close>

text \<open>
  The decorators of the router in the order of the file, each with its method and with
  its path below the prefix, segment by segment: a fixed word or a path parameter. A
  path parameter matches any segment that is not empty.
\<close>

datatype http_method = GET | POST | PUT | DELETE

datatype segment = Fixed string | Param

datatype route =
    Route_create_journal
  | Route_get_all_journals
  | Route_get_journals_by_tag
  | Route_get_user_journals
  | Route_get_journal_by_id
  | Route_get_journals_by_user
  | Route_get_my_journals
  | Route_update_journal
  | Route_delete_journal
  | Route_create_journal_reaction
  | Route_get_journal_reactions
  | Route_create_journal_favorite
  | Route_get_journal_favorites
  | Route_create_journal_share
  | Route_create_journal_report

definition routes :: "(http_method \<times> segment list \<times> route) list" where
  "routes =
     [(POST, [Fixed ''create''], Route_create_journal),
      (GET, [Fixed ''get-all''], Route_get_all_journals),
      (GET, [Fixed ''tags'', Param], Route_get_journals_by_tag),
      (GET, [Fixed ''get-user-journals''], Route_get_user_journals),
      (GET, [Param], Route_get_journal_by_id),
      (GET, [Fixed ''user'', Param], Route_get_journals_by_user),
      (GET, [Fixed ''my''], Route_get_my_journals),
      (PUT, [Param], Route_update_journal),
      (DELETE, [Param], Route_delete_journal),
      (POST, [Fixed ''journal-reactions''], Route_create_journal_reaction),
      (GET, [Fixed ''journal-reactions'', Param], Route_get_journal_reactions),
      (POST, [Fixed ''journal-favorites''], Route_create_journal_favorite),
      (GET, [Fixed ''journal-favorites''], Route_get_journal_favorites),
      (POST, [Fixed ''journal-shares''], Route_create_journal_share),
      (POST, [Fixed ''journal-reports''], Route_create_journal_report)]"

fun matches :: "segment list \<Rightarrow> string list \<Rightarrow> bool" where
  "matches [] [] = True"
| "matches (Fixed w # pattern) (s # path) = (s = w \<and> matches pattern path)"
| "matches (Param # pattern) (s # path) = (s \<noteq> [] \<and> matches pattern path)"
| "matches [] (s # path) = False"
| "matches (p # pattern) [] = False"

text \<open>
  The router serves a request with the first route, in the order of the file, that
  matches both its method and its path.
\<close>

definition resolve :: "http_method \<Rightarrow> string list \<Rightarrow> route option" where
  "resolve m path =
     map_option (\<lambda>(m', pattern, r). r)
       (find (\<lambda>(m', pattern, r). m' = m \<and> matches pattern path) routes)"

section \<open>The endpoints with their dependencies\<close>

text \<open>
  A call of an endpoint: the route the router has resolved the request to, with the
  path, query and body parameters as validated for the handler; and one kind of response
  data per response model.
\<close>

datatype call =
    CreateJournal JournalCreate
  | GetAllJournals nat nat
  | GetJournalsByTag string
  | GetUserJournals nat nat
  | GetJournalById int
  | GetJournalsByUser int nat nat
  | GetMyJournals nat nat
  | UpdateJournal int JournalUpdate
  | DeleteJournal int
  | CreateJournalReaction JournalReactionCreate
  | GetJournalReactions int
  | CreateJournalFavorite JournalFavoriteCreate
  | GetJournalFavorites
  | CreateJournalShare JournalShareCreate
  | CreateJournalReport JournalReportCreate

fun route_of :: "call \<Rightarrow> route" where
  "route_of (CreateJournal body) = Route_create_journal"
| "route_of (GetAllJournals skip limit) = Route_get_all_journals"
| "route_of (GetJournalsByTag tag_name) = Route_get_journals_by_tag"
| "route_of (GetUserJournals skip limit) = Route_get_user_journals"
| "route_of (GetJournalById journal_id) = Route_get_journal_by_id"
| "route_of (GetJournalsByUser user_id skip limit) = Route_get_journals_by_user"
| "route_of (GetMyJournals skip limit) = Route_get_my_journals"
| "route_of (UpdateJournal journal_id body) = Route_update_journal"
| "route_of (DeleteJournal journal_id) = Route_delete_journal"
| "route_of (CreateJournalReaction body) = Route_create_journal_reaction"
| "route_of (GetJournalReactions journal_id) = Route_get_journal_reactions"
| "route_of (CreateJournalFavorite body) = Route_create_journal_favorite"
| "route_of GetJournalFavorites = Route_get_journal_favorites"
| "route_of (CreateJournalShare body) = Route_create_journal_share"
| "route_of (CreateJournalReport body) = Route_create_journal_report"

datatype response_data =
    DJournal Journal
  | DFeed "JournalFeedResponse list"
  | DEmpty
  | DReaction JournalReactions
  | DReactions "JournalReactions list"
  | DFavorite JournalFavorites
  | DFavorites "JournalFavorites list"
  | DShare JournalShares
  | DReport JournalReports

definition as_data ::
  "('a \<Rightarrow> response_data) \<Rightarrow> error + 'a APIResponse \<Rightarrow> error + response_data APIResponse" where
  "as_data f r =
     map_sum id (\<lambda>x. \<lparr>status = status x, message = message x, data = f (data x)\<rparr>) r"

text \<open>
  \<open>Depends(get_current_user)\<close>, which itself depends on \<open>bearer_scheme\<close>. The
  scheme object \<open>HTTPBearer()\<close> belongs to the web framework and is a parameter: it
  reads the \<open>Authorization\<close> header of the request, if there is one, and returns the
  credentials or raises. The handler runs only when both dependencies have returned.
\<close>

definition with_current_user ::
  "(string option \<Rightarrow> error + HTTPAuthorizationCredentials) \<Rightarrow> (string \<Rightarrow> string + claims)
   \<Rightarrow> nat \<Rightarrow> db \<Rightarrow> string option \<Rightarrow> (User \<Rightarrow> db \<times> (error + 'a)) \<Rightarrow> db \<times> (error + 'a)" where
  "with_current_user bearer_scheme verify max_str_digits d authorization handler =
     (case bearer_scheme authorization of
        Inl e \<Rightarrow> (d, Inl e)
      | Inr auth_credentials \<Rightarrow>
          (case get_current_user verify max_str_digits d auth_credentials of
             Inl e \<Rightarrow> (d, Inl e)
           | Inr current_user \<Rightarrow> handler current_user))"

text \<open>
  \<open>operation\<close> follows the signatures of the handlers: the ones that declare
  \<open>current_user\<close> have the dependency solved first, \<open>get_journal_by_id\<close> and
  \<open>get_journal_reactions\<close> declare the session only.
\<close>

fun operation ::
  "(string option \<Rightarrow> error + HTTPAuthorizationCredentials) \<Rightarrow> (string \<Rightarrow> string + claims)
   \<Rightarrow> nat \<Rightarrow> db \<Rightarrow> datetime \<Rightarrow> string option \<Rightarrow> call
   \<Rightarrow> db \<times> (error + response_data APIResponse)" where
  "operation bearer verify digits d now authorization (CreateJournal body) =
     with_current_user bearer verify digits d authorization
       (\<lambda>current_user. apsnd (as_data DJournal) (create_journal d now current_user body))"
| "operation bearer verify digits d now authorization (GetAllJournals skip limit) =
     with_current_user bearer verify digits d authorization
       (\<lambda>current_user. (d, as_data DFeed (get_all_journals d current_user skip limit)))"
| "operation bearer verify digits d now authorization (GetJournalsByTag tag_name) =
     with_current_user bearer verify digits d authorization
       (\<lambda>current_user. (d, as_data DFeed (get_journals_by_tag d current_user tag_name)))"
| "operation bearer verify digits d now authorization (GetUserJournals skip limit) =
     with_current_user bearer verify digits d authorization
       (\<lambda>current_user. (d, as_data DFeed (get_user_journals d current_user skip limit)))"
| "operation bearer verify digits d now authorization (GetJournalById journal_id) =
     (d, as_data DJournal (get_journal_by_id d journal_id))"
| "operation bearer verify digits d now authorization (GetJournalsByUser user_id skip limit) =
     with_current_user bearer verify digits d authorization
       (\<lambda>current_user. (d, as_data DFeed (get_journals_by_user d current_user user_id skip limit)))"
| "operation bearer verify digits d now authorization (GetMyJournals skip limit) =
     with_current_user bearer verify digits d authorization
       (\<lambda>current_user. (d, as_data DFeed (get_my_journals d current_user skip limit)))"
| "operation bearer verify digits d now authorization (UpdateJournal journal_id body) =
     with_current_user bearer verify digits d authorization
       (\<lambda>current_user. apsnd (as_data DJournal) (update_journal d current_user journal_id body))"
| "operation bearer verify digits d now authorization (DeleteJournal journal_id) =
     with_current_user bearer verify digits d authorization
       (\<lambda>current_user. apsnd (as_data (\<lambda>_. DEmpty)) (delete_journal d current_user journal_id))"
| "operation bearer verify digits d now authorization (CreateJournalReaction body) =
     with_current_user bearer verify digits d authorization
       (\<lambda>current_user. apsnd (as_data DReaction) (create_journal_reaction d now current_user body))"
| "operation bearer verify digits d now authorization (GetJournalReactions journal_id) =
     (d, as_data DReactions (get_journal_reactions d journal_id))"
| "operation bearer verify digits d now authorization (CreateJournalFavorite body) =
     with_current_user bearer verify digits d authorization
       (\<lambda>current_user. apsnd (as_data DFavorite) (create_journal_favorite d now current_user body))"
| "operation bearer verify digits d now authorization GetJournalFavorites =
     with_current_user bearer verify digits d authorization
       (\<lambda>current_user. (d, as_data DFavorites (get_journal_favorites d current_user)))"
| "operation bearer verify digits d now authorization (CreateJournalShare body) =
     with_current_user bearer verify digits d authorization
       (\<lambda>current_user. apsnd (as_data DShare) (create_journal_share d now current_user body))"
| "operation bearer verify digits d now authorization (CreateJournalReport body) =
     with_current_user bearer verify digits d authorization
       (\<lambda>current_user. apsnd (as_data DReport) (create_journal_report d now current_user body))"

section \<open>A small store for concrete runs\<close>

text \<open>
  Two users; journal 1 is live, journal 2 is soft-deleted, both belong to user 1 and carry
  the tag ``gratitude''. Journal 1 has two shares and journal 2 one; user 2 has favorited
  journal 1.
\<close>

definition user_a :: User where
  "user_a = \<lparr>u_id = 1, u_name = ''A'', u_profile_image_url = None\<rparr>"

definition user_b :: User where
  "user_b = \<lparr>u_id = 2, u_name = ''B'', u_profile_image_url = Some ''b.png''\<rparr>"

definition journal_live :: Journal where
  "journal_live =
     \<lparr>j_id = 1, j_user_id = 1, j_title = ''Morning'', j_body_snippet = Some ''walk'',
      j_html_content = None, j_is_private = False, j_image_url = None,
      j_is_deleted = False, j_deleted_at = None, j_created_at = 10, j_updated_at = 10\<rparr>"

definition journal_gone :: Journal where
  "journal_gone =
     \<lparr>j_id = 2, j_user_id = 1, j_title = ''Evening'', j_body_snippet = None,
      j_html_content = None, j_is_private = True, j_image_url = None,
      j_is_deleted = True, j_deleted_at = Some (Datetime 25),
      j_created_at = 20, j_updated_at = 20\<rparr>"

definition example_db :: db where
  "example_db =
     \<lparr>users = [user_a, user_b],
      journals = [journal_live, journal_gone],
      tags = [\<lparr>t_id = 1, t_name = ''gratitude''\<rparr>],
      journal_tag_link = [(1, 1), (2, 1)],
      comments = [\<lparr>c_id = 1, c_journal_id = 1, c_user_id = 2, c_body = ''nice''\<rparr>],
      journal_reactions =
        [\<lparr>jr_id = 1, jr_journal_id = 1, jr_user_id = 2, jr_reaction_type = ''like'',
          jr_created_at = 11\<rparr>],
      journal_favorites =
        [\<lparr>jf_id = 1, jf_journal_id = 1, jf_user_id = 2, jf_created_at = 12\<rparr>],
      journal_shares =
        [\<lparr>js_id = 1, js_journal_id = 1, js_user_id = 2, js_share_type = ''internal'',
          js_shared_at = 13\<rparr>,
         \<lparr>js_id = 2, js_journal_id = 2, js_user_id = 2, js_share_type = ''internal'',
          js_shared_at = 21\<rparr>,
         \<lparr>js_id = 3, js_journal_id = 1, js_user_id = 1, js_share_type = ''link'',
          js_shared_at = 22\<rparr>],
      journal_reports = []\<rparr>"

text \<open>
  A verification for the runs: it knows seven tokens and fails on every other one. The
  subject of \<open>token-padded\<close> is the text of 2 between a space and a line feed, the
  subject of \<open>token-separator\<close> is the text of 2 after the unit separator 31.
\<close>

definition example_verify :: "string \<Rightarrow> string + claims" where
  "example_verify token =
     (if token = ''token-a'' then Inr [''sub'' \<mapsto> ''1'']
      else if token = ''token-padded'' then Inr [''sub'' \<mapsto> [CHR '' '', CHR ''2'', CHR 0x0A]]
      else if token = ''token-separator'' then Inr [''sub'' \<mapsto> [CHR 0x1F, CHR ''2'']]
      else if token = ''token-none'' then Inr Map.empty
      else if token = ''token-empty'' then Inr [''sub'' \<mapsto> '''']
      else if token = ''token-word'' then Inr [''sub'' \<mapsto> ''abc'']
      else if token = ''token-ghost'' then Inr [''sub'' \<mapsto> ''99'']
      else Inl ''Could not validate credentials'')"

text \<open>
  A bearer scheme for the runs. It splits the header at its first space and refuses a
  request without the header, a header without scheme or credentials, and a scheme other
  than bearer, each with a 403.
\<close>

definition example_bearer :: "string option \<Rightarrow> error + HTTPAuthorizationCredentials" where
  "example_bearer authorization =
     (case authorization of
        None \<Rightarrow> Inl (HTTPException 403 ''Not authenticated'')
      | Some header \<Rightarrow>
          let scheme_part = takeWhile (\<lambda>c. c \<noteq> CHR '' '') header;
              credentials_part = drop 1 (dropWhile (\<lambda>c. c \<noteq> CHR '' '') header)
          in if scheme_part = [] \<or> credentials_part = []
             then Inl (HTTPException 403 ''Not authenticated'')
             else if lower scheme_part = ''bearer''
             then Inr \<lparr>scheme = scheme_part, credentials = credentials_part\<rparr>
             else Inl (HTTPException 403 ''Invalid authentication credentials''))"

text \<open>An update that gives the title only.\<close>

definition title_only :: JournalUpdate where
  "title_only =
     \<lparr>ju_title = Given (Some ''Dawn''), ju_body_snippet = Unset, ju_html_content = Unset,
      ju_is_private = Unset, ju_image_url = Unset\<rparr>"

text \<open>An update that gives \<open>null\<close> for the title and a text for the snippet.\<close>

definition null_title :: JournalUpdate where
  "null_title =
     \<lparr>ju_title = Given None, ju_body_snippet = Given (Some ''run''), ju_html_content = Unset,
      ju_is_private = Unset, ju_image_url = Unset\<rparr>"

text \<open>The store with no rows.\<close>

definition empty_db :: db where
  "empty_db = \<lparr>users = [], journals = [], tags = [], journal_tag_link = [], comments = [],
     journal_reactions = [], journal_favorites = [], journal_shares = [], journal_reports = []\<rparr>"

text \<open>A creation payload that names an existing tag once and a new tag twice.\<close>

definition tagged_entry :: JournalCreate where
  "tagged_entry =
     \<lparr>jc_title = ''Noon'', jc_body_snippet = None, jc_html_content = None,
      jc_is_private = True, jc_image_url = None,
      jc_tags = [''gratitude'', ''morning'', ''morning'']\<rparr>"

text \<open>The same payload with each tag named once.\<close>

definition tagged_once :: JournalCreate where
  "tagged_once =
     \<lparr>jc_title = ''Noon'', jc_body_snippet = None, jc_html_content = None,
      jc_is_private = True, jc_image_url = None,
      jc_tags = [''gratitude'', ''morning'']\<rparr>"

section \<open>Auxiliary facts\<close>

text \<open>The envelope: without a \<open>status\<close> keyword it is built, ``success'' is refused.\<close>

lemma APIResponse_default:
  "APIResponse None m x = Inr \<lparr>status = True, message = m, data = x\<rparr>"
  by (simp add: APIResponse_def)

lemma bool_of_str_success: "bool_of_str ''success'' = None"
  by code_simp

lemma APIResponse_success: "APIResponse (Some ''success'') m x = Inl (ValidationError ''status'')"
  by (simp add: APIResponse_def bool_of_str_success)

text \<open>
  Every handler that passes \<open>status="success"\<close> raises when it builds its envelope,
  after its work on the store.
\<close>

lemma status_success_raises:
  "snd (create_journal_reaction d now u reaction_body) = Inl (ValidationError ''status'')"
  "snd (create_journal_favorite d now u favorite_body) = Inl (ValidationError ''status'')"
  "snd (create_journal_share d now u share_body) = Inl (ValidationError ''status'')"
  "snd (create_journal_report d now u report_body) = Inl (ValidationError ''status'')"
  "get_journal_reactions d k = Inl (ValidationError ''status'')"
  "get_journal_favorites d u = Inl (ValidationError ''status'')"
  "session_get_journal d k = Some j \<Longrightarrow> \<not> j_is_deleted j \<Longrightarrow>
   get_journal_by_id d k = Inl (ValidationError ''status'')"
  by (simp_all add: create_journal_reaction_def create_journal_favorite_def
      create_journal_share_def create_journal_report_def get_journal_reactions_def
      get_journal_favorites_def get_journal_by_id_def APIResponse_success Let_def)

lemma find_put_row_same:
  "find (\<lambda>r. j_id r = k) rs = Some j \<Longrightarrow> j_id j' = k \<Longrightarrow>
   find (\<lambda>r. j_id r = k) (put_row j' rs) = Some j'"
  by (induction rs) (auto split: if_splits)

lemma find_Some_id: "find (\<lambda>r. j_id r = k) rs = Some j \<Longrightarrow> j_id j = k"
  by (induction rs) (auto split: if_splits)

lemma apply_update_id: "apply_update j p = Some j' \<Longrightarrow> j_id j' = j_id j"
  by (auto simp: apply_update_def split: option.splits)

lemma apply_update_None:
  "(apply_update j p = None) = (ju_title p = Given None \<or> ju_is_private p = Given None)"
  by (auto simp: apply_update_def set_field_def split: option.splits field.splits)

lemma example_get_live: "session_get_journal example_db 1 = Some journal_live"
  by (simp add: session_get_journal_def example_db_def journal_live_def)

lemma example_get_gone: "session_get_journal example_db 2 = Some journal_gone"
  by (simp add: session_get_journal_def example_db_def journal_live_def journal_gone_def)

lemma delete_journal_owned:
  assumes found: "session_get_journal d journal_id = Some journal"
    and owner: "j_user_id journal = u_id current_user"
  shows "delete_journal d current_user journal_id =
     (d\<lparr>journals := put_row (journal\<lparr>j_is_deleted := True,
                 j_deleted_at := Some (Literal ''CURRENT_TIMESTAMP'')\<rparr>) (journals d)\<rparr>,
      Inl (ValidationError ''status''))"
  using found owner
  by (simp add: delete_journal_def commit_journal_def Let_def APIResponse_success)

lemma update_journal_owned:
  assumes found: "session_get_journal d journal_id = Some journal"
    and owner: "j_user_id journal = u_id current_user"
    and new: "apply_update journal journal_data = Some journal'"
  shows "update_journal d current_user journal_id journal_data =
     (d\<lparr>journals := put_row journal' (journals d)\<rparr>, Inl (ValidationError ''status''))"
  using found owner new
  by (simp add: update_journal_def commit_journal_def APIResponse_success)

lemma update_journal_refused:
  assumes found: "session_get_journal d journal_id = Some journal"
    and owner: "j_user_id journal = u_id current_user"
    and new: "apply_update journal journal_data = None"
  shows "update_journal d current_user journal_id journal_data =
     (d, Inl (IntegrityError ''journals''))"
  using found owner new by (simp add: update_journal_def)

text \<open>
  The 404 of the two handlers is raised exactly for a missing row and for the row of
  another user; \<open>is_deleted\<close> is not read.
\<close>

lemma update_journal_not_found_iff:
  "(snd (update_journal d u k p) = Inl (HTTPException 404 ''Journal not found'')) =
   (case session_get_journal d k of None \<Rightarrow> True | Some j \<Rightarrow> j_user_id j \<noteq> u_id u)"
  by (simp add: update_journal_def journal_not_found_def HTTP_404_NOT_FOUND_def
      APIResponse_success split: option.splits)

lemma delete_journal_not_found_iff:
  "(snd (delete_journal d u k) = Inl (HTTPException 404 ''Journal not found'')) =
   (case session_get_journal d k of None \<Rightarrow> True | Some j \<Rightarrow> j_user_id j \<noteq> u_id u)"
  by (simp add: delete_journal_def journal_not_found_def HTTP_404_NOT_FOUND_def Let_def
      APIResponse_success split: option.splits)

text \<open>The reading of integers and of letter case on the texts of the runs.\<close>

lemma py_int_empty: "py_int m [] = None"
  by (simp add: py_int_def)

lemma py_int_examples:
  "py_int 4300 ''1'' = Some 1"
  "py_int 4300 ''99'' = Some 99"
  "py_int 4300 [CHR '' '', CHR ''2'', CHR 0x0A] = Some 2"
  "py_int 4300 [CHR 0xA0, CHR ''2'', CHR 0x85] = Some 2"
  "py_int 4300 ''-1_0'' = Some (- 10)"
  "py_int 4300 [CHR 0x1F, CHR ''2''] = None"
  "py_int 4300 ''abc'' = None"
  "py_int 4300 ''1 2'' = None"
  "py_int 4300 ''1__0'' = None"
  by (simp_all add: py_int_def is_space_def is_digit_def digit_of_def)

lemma lower_examples:
  "lower ''Bearer'' = ''bearer''"
  "lower ''bEARER'' = ''bearer''"
  "lower ''Basic'' = ''basic''"
  by code_simp+

lemma example_users:
  "find (\<lambda>u. u_id u = 1) (users example_db) = Some user_a"
  "find (\<lambda>u. u_id u = 2) (users example_db) = Some user_b"
  "find (\<lambda>u. u_id u = 99) (users example_db) = None"
  by (simp_all add: example_db_def user_a_def user_b_def)

text \<open>
  Which texts \<open>py_int\<close> reads. A text that it reads consists of blanks, signs,
  digits and underscores only, and has no more digits than the limit allows; a decimal
  numeral between blanks is read as its value.
\<close>

lemma is_space_not_digit: "is_space c \<Longrightarrow> \<not> is_digit c \<and> c \<noteq> CHR ''_''"
  by (auto simp: is_space_def is_digit_def Let_def)

lemma is_digit_not_mark:
  "is_digit c \<Longrightarrow> c \<noteq> CHR ''_'' \<and> c \<noteq> CHR ''+'' \<and> c \<noteq> CHR ''-'' \<and> \<not> is_space c"
  by (auto simp: is_space_def is_digit_def Let_def)

lemma parse_digits_count:
  "parse_digits acc k b s = Some (n, k', rest) \<Longrightarrow>
   k' + length (filter is_digit rest) = k + length (filter is_digit s)"
proof (induction s arbitrary: acc k b)
  case Nil
  then show ?case by (simp split: if_splits)
next
  case (Cons c cs)
  show ?case
  proof (cases "c = CHR ''_''")
    case True
    with Cons.prems have b and rec: "parse_digits acc k False cs = Some (n, k', rest)"
      by (simp_all split: if_splits)
    have "\<not> is_digit c"
      using True is_digit_not_mark by blast
    with Cons.IH [OF rec] show ?thesis by simp
  next
    case False
    show ?thesis
    proof (cases "is_digit c")
      case True
      with False Cons.prems
      have rec: "parse_digits (10 * acc + digit_of c) (k + 1) True cs = Some (n, k', rest)"
        by simp
      from Cons.IH [OF rec] True show ?thesis by simp
    next
      case nd: False
      with False Cons.prems have "rest = c # cs" "k' = k"
        by (simp_all split: if_splits)
      then show ?thesis by simp
    qed
  qed
qed

lemma parse_digits_consumed:
  "parse_digits acc k b s = Some (n, k', rest) \<Longrightarrow>
   \<exists>pre. s = pre @ rest \<and> (\<forall>c\<in>set pre. is_digit c \<or> c = CHR ''_'')"
proof (induction s arbitrary: acc k b)
  case Nil
  then show ?case by (simp split: if_splits)
next
  case (Cons c cs)
  show ?case
  proof (cases "c = CHR ''_'' \<or> is_digit c")
    case True
    with Cons.prems obtain acc' k0 b' where
      rec: "parse_digits acc' k0 b' cs = Some (n, k', rest)"
      by (auto split: if_splits)
    from Cons.IH [OF rec] obtain pre where
      "cs = pre @ rest" "\<forall>c\<in>set pre. is_digit c \<or> c = CHR ''_''"
      by blast
    with True have "c # cs = (c # pre) @ rest \<and> (\<forall>x\<in>set (c # pre). is_digit x \<or> x = CHR ''_'')"
      by auto
    then show ?thesis by blast
  next
    case False
    with Cons.prems have "rest = c # cs"
      by (simp split: if_splits)
    then show ?thesis by simp
  qed
qed

lemma py_int_alphabet:
  assumes "py_int m s = Some n"
  shows "\<forall>c\<in>set s. is_space c \<or> is_digit c \<or> c = CHR ''_'' \<or> c = CHR ''+'' \<or> c = CHR ''-''"
proof -
  let ?ok = "\<lambda>c. is_space c \<or> is_digit c \<or> c = CHR ''_'' \<or> c = CHR ''+'' \<or> c = CHR ''-''"
  define str where "str = dropWhile is_space s"
  define body where
    "body = (if str \<noteq> [] \<and> (hd str = CHR ''+'' \<or> hd str = CHR ''-'') then tl str else str)"
  from assms obtain v k rest where
    p: "parse_digits 0 0 False body = Some (v, k, rest)"
    and r: "dropWhile is_space rest = []"
    by (auto simp: py_int_def Let_def str_def body_def split: option.splits if_splits)
  from parse_digits_consumed [OF p] obtain pre where
    pre: "body = pre @ rest" "\<forall>c\<in>set pre. is_digit c \<or> c = CHR ''_''"
    by blast
  have rest: "\<forall>c\<in>set rest. is_space c"
    using r by simp
  have body_ok: "\<forall>c\<in>set body. ?ok c"
    using pre rest by auto
  have str_ok: "\<forall>c\<in>set str. ?ok c"
  proof (cases "str \<noteq> [] \<and> (hd str = CHR ''+'' \<or> hd str = CHR ''-'')")
    case True
    then have "str = hd str # body"
      by (simp add: body_def)
    then have "set str = insert (hd str) (set body)"
      by (metis list.simps(15))
    with True body_ok show ?thesis by auto
  next
    case False
    then have "body = str"
      by (auto simp: body_def)
    with body_ok show ?thesis by simp
  qed
  have "s = takeWhile is_space s @ str"
    by (simp add: str_def)
  then have "set s = set (takeWhile is_space s) \<union> set str"
    by (metis set_append)
  moreover have "\<forall>c\<in>set (takeWhile is_space s). is_space c"
    by (auto dest: set_takeWhileD)
  ultimately show ?thesis
    using str_ok by auto
qed

lemma py_int_digit_limit:
  assumes "py_int m s = Some n"
  shows "length (filter is_digit s) \<le> 640 \<or> m = 0 \<or> length (filter is_digit s) \<le> m"
proof -
  define str where "str = dropWhile is_space s"
  define body where
    "body = (if str \<noteq> [] \<and> (hd str = CHR ''+'' \<or> hd str = CHR ''-'') then tl str else str)"
  from assms obtain v k rest where
    p: "parse_digits 0 0 False body = Some (v, k, rest)"
    and r: "dropWhile is_space rest = []"
    and lim: "k \<le> 640 \<or> m = 0 \<or> k \<le> m"
    by (auto simp: py_int_def Let_def str_def body_def split: option.splits if_splits)
  have "\<forall>c\<in>set rest. is_space c"
    using r by simp
  then have "filter is_digit rest = []"
    by (auto simp: filter_empty_conv is_space_not_digit)
  with parse_digits_count [OF p] have k: "k = length (filter is_digit body)"
    by simp
  have "filter is_digit body = filter is_digit str"
  proof (cases "str \<noteq> [] \<and> (hd str = CHR ''+'' \<or> hd str = CHR ''-'')")
    case True
    then have s: "str = hd str # body"
      by (simp add: body_def)
    have "\<not> is_digit (hd str)"
      using True is_digit_not_mark by blast
    then have "filter is_digit (hd str # body) = filter is_digit body"
      by simp
    with s show ?thesis by simp
  next
    case False
    then show ?thesis by (auto simp: body_def)
  qed
  moreover have "filter is_digit str = filter is_digit s"
  proof -
    have "s = takeWhile is_space s @ str"
      by (simp add: str_def)
    then have "filter is_digit s =
        filter is_digit (takeWhile is_space s) @ filter is_digit str"
      by (metis filter_append)
    moreover have "filter is_digit (takeWhile is_space s) = []"
      by (auto simp: filter_empty_conv is_space_not_digit dest: set_takeWhileD)
    ultimately show ?thesis by simp
  qed
  ultimately show ?thesis
    using k lim by simp
qed

lemma parse_digits_numeral:
  assumes "ds \<noteq> []" and "\<forall>c\<in>set ds. is_digit c" and "\<forall>c\<in>set ws. is_space c"
  shows "parse_digits acc k b (ds @ ws) =
     Some (foldl (\<lambda>a c. 10 * a + digit_of c) acc ds, k + length ds, ws)"
  using assms(1,2)
proof (induction ds arbitrary: acc k b)
  case Nil
  then show ?case by simp
next
  case (Cons c ds)
  have c: "is_digit c" "c \<noteq> CHR ''_''"
    using Cons.prems(2) is_digit_not_mark by auto
  show ?case
  proof (cases "ds = []")
    case True
    show ?thesis
    proof (cases ws)
      case Nil
      with True c show ?thesis by simp
    next
      case (Cons w ws')
      then have "is_space w"
        using assms(3) by simp
      then have "\<not> is_digit w" "w \<noteq> CHR ''_''"
        using is_space_not_digit by auto
      with True c Cons show ?thesis by simp
    qed
  next
    case False
    then have "parse_digits (10 * acc + digit_of c) (k + 1) True (ds @ ws) =
        Some (foldl (\<lambda>a c. 10 * a + digit_of c) (10 * acc + digit_of c) ds,
              (k + 1) + length ds, ws)"
      using Cons.IH Cons.prems(2) by simp
    with c show ?thesis by simp
  qed
qed

lemma py_int_numeral:
  assumes ds: "ds \<noteq> []" "\<forall>c\<in>set ds. is_digit c"
    and blanks: "\<forall>c\<in>set ws. is_space c" "\<forall>c\<in>set ws'. is_space c"
    and lim: "length ds \<le> 640 \<or> m = 0 \<or> length ds \<le> m"
  shows "py_int m (ws @ ds @ ws') = Some (int (foldl (\<lambda>a c. 10 * a + digit_of c) 0 ds))"
proof -
  obtain c cs where ds_eq: "ds = c # cs"
    using ds(1) by (cases ds) auto
  have c: "is_digit c"
    using ds(2) ds_eq by simp
  then have marks: "\<not> is_space c" "c \<noteq> CHR ''+''" "c \<noteq> CHR ''-''"
    using is_digit_not_mark by auto
  have drop: "dropWhile is_space (ws @ ds @ ws') = ds @ ws'"
    using blanks(1) marks(1) ds_eq by (simp add: dropWhile_append3)
  have hd: "hd (ds @ ws') = c" "ds @ ws' \<noteq> []"
    using ds_eq by simp_all
  have p: "parse_digits 0 0 False (ds @ ws') =
      Some (foldl (\<lambda>a c. 10 * a + digit_of c) 0 ds, 0 + length ds, ws')"
    by (rule parse_digits_numeral [OF ds blanks(2)])
  have "py_int m (ws @ ds @ ws') =
      (if 640 < length ds \<and> 0 < m \<and> m < length ds then None
       else Some (int (foldl (\<lambda>a c. 10 * a + digit_of c) 0 ds)))"
    unfolding py_int_def Let_def drop using blanks(2) by (simp add: hd marks p)
  with lim show ?thesis
    by auto
qed

text \<open>
  The tag loop of \<open>create_journal\<close>, and the handler for a payload that names each
  tag once, on a store whose tag ids are distinct and that has no link row for the id the
  new journal gets.
\<close>

lemma find_SomeD: "find P xs = Some x \<Longrightarrow> x \<in> set xs \<and> P x"
  by (induction xs) (auto split: if_splits)

lemma find_append_Some: "find P xs = Some x \<Longrightarrow> find P (xs @ ys) = Some x"
  by (induction xs) (auto split: if_splits)

lemma find_append_None: "find P xs = None \<Longrightarrow> find P (xs @ ys) = find P ys"
  by (induction xs) (auto split: if_splits)

lemma fold_max_ge: "(a::int) \<le> fold max xs a \<and> (\<forall>x\<in>set xs. x \<le> fold max xs a)"
proof (induction xs arbitrary: a)
  case Nil
  show ?case by simp
next
  case (Cons x xs)
  from Cons.IH [of "max x a"] show ?case by auto
qed

lemma next_id_fresh: "next_id ids \<notin> set ids"
  using fold_max_ge [of 0 ids] by (auto simp: next_id_def)

lemma attach_tags_spec:
  "\<exists>new.
      fst (attach_tags names d attached) = d\<lparr>tags := tags d @ new\<rparr>
    \<and> snd (attach_tags names d attached) =
        attached @ map (\<lambda>n. the (find (\<lambda>t. t_name t = n) (tags d @ new))) names
    \<and> distinct (map t_name new)
    \<and> set (map t_name new) = set names - set (map t_name (tags d))
    \<and> distinct (map t_id new)
    \<and> set (map t_id new) \<inter> set (map t_id (tags d)) = {}"
proof (induction names arbitrary: d attached)
  case Nil
  show ?case
    by (rule exI [of _ "[]"]) simp
next
  case (Cons n names)
  show ?case
  proof (cases "find (\<lambda>t. t_name t = n) (tags d)")
    case (Some tag)
    have step: "attach_tags (n # names) d attached = attach_tags names d (attached @ [tag])"
      using Some by simp
    have old: "n \<in> set (map t_name (tags d))"
      using find_SomeD [OF Some] by force
    from Cons.IH [of d "attached @ [tag]"] obtain new where
      t: "fst (attach_tags names d (attached @ [tag])) = d\<lparr>tags := tags d @ new\<rparr>"
      and a: "snd (attach_tags names d (attached @ [tag])) =
          (attached @ [tag]) @ map (\<lambda>n. the (find (\<lambda>t. t_name t = n) (tags d @ new))) names"
      and dn: "distinct (map t_name new)"
      and sn: "set (map t_name new) = set names - set (map t_name (tags d))"
      and di: "distinct (map t_id new)"
      and fi: "set (map t_id new) \<inter> set (map t_id (tags d)) = {}"
      by blast
    have look: "the (find (\<lambda>t. t_name t = n) (tags d @ new)) = tag"
      using find_append_Some [OF Some] by simp
    have a': "snd (attach_tags (n # names) d attached) =
        attached @ map (\<lambda>n. the (find (\<lambda>t. t_name t = n) (tags d @ new))) (n # names)"
      unfolding step a by (simp add: look)
    have sn': "set (map t_name new) = set (n # names) - set (map t_name (tags d))"
      using sn old by auto
    have t': "fst (attach_tags (n # names) d attached) = d\<lparr>tags := tags d @ new\<rparr>"
      unfolding step by (rule t)
    show ?thesis
      by (intro exI [of _ new] conjI t' a' dn sn' di fi)
  next
    case None
    define tag where "tag = \<lparr>t_id = next_id (map t_id (tags d)), t_name = n\<rparr>"
    define d1 where "d1 = d\<lparr>tags := tags d @ [tag]\<rparr>"
    have step: "attach_tags (n # names) d attached = attach_tags names d1 (attached @ [tag])"
      using None by (simp add: Let_def tag_def d1_def)
    have fresh_name: "n \<notin> set (map t_name (tags d))"
      using None by (auto simp: find_None_iff)
    have fresh_id: "t_id tag \<notin> set (map t_id (tags d))"
      using next_id_fresh [of "map t_id (tags d)"] by (simp add: tag_def)
    have tags1: "tags d1 = tags d @ [tag]"
      by (simp add: d1_def)
    from Cons.IH [of d1 "attached @ [tag]"] obtain new where
      t: "fst (attach_tags names d1 (attached @ [tag])) = d1\<lparr>tags := tags d1 @ new\<rparr>"
      and a: "snd (attach_tags names d1 (attached @ [tag])) =
          (attached @ [tag]) @ map (\<lambda>n. the (find (\<lambda>t. t_name t = n) (tags d1 @ new))) names"
      and dn: "distinct (map t_name new)"
      and sn: "set (map t_name new) = set names - set (map t_name (tags d1))"
      and di: "distinct (map t_id new)"
      and fi: "set (map t_id new) \<inter> set (map t_id (tags d1)) = {}"
      by blast
    have t': "fst (attach_tags (n # names) d attached) = d\<lparr>tags := tags d @ (tag # new)\<rparr>"
      unfolding step t by (simp add: d1_def)
    have "find (\<lambda>t. t_name t = n) (tags d @ tag # new) = Some tag"
      using find_append_None [OF None, of "tag # new"] by (simp add: tag_def)
    then have look: "the (find (\<lambda>t. t_name t = n) (tags d @ tag # new)) = tag"
      by simp
    have a': "snd (attach_tags (n # names) d attached) =
        attached @ map (\<lambda>n. the (find (\<lambda>t. t_name t = n) (tags d @ tag # new))) (n # names)"
      unfolding step a by (simp add: look tags1)
    have name: "t_name tag = n"
      by (simp add: tag_def)
    have dn': "distinct (map t_name (tag # new))"
      using dn sn name by (auto simp: tags1)
    have sn': "set (map t_name (tag # new)) = set (n # names) - set (map t_name (tags d))"
      using sn name fresh_name by (auto simp: tags1)
    have di': "distinct (map t_id (tag # new))"
      using di fi by (auto simp: tags1)
    have fi': "set (map t_id (tag # new)) \<inter> set (map t_id (tags d)) = {}"
      using fi fresh_id by (auto simp: tags1)
    show ?thesis
      by (intro exI [of _ "tag # new"] conjI t' a' dn' sn' di' fi')
  qed
qed

lemma find_name:
  "n \<in> set (map t_name ts) \<Longrightarrow>
   the (find (\<lambda>t. t_name t = n) ts) \<in> set ts \<and> t_name (the (find (\<lambda>t. t_name t = n) ts)) = n"
  by (induction ts) auto

lemma create_journal_distinct_tags:
  assumes names: "distinct (jc_tags journal_data)"
    and pk: "distinct (map t_id (tags d))"
    and fresh: "next_id (map j_id (journals d)) \<notin> fst ` set (journal_tag_link d)"
  shows "\<exists>journal new links.
      create_journal d now current_user journal_data =
        (d\<lparr>tags := tags d @ new,
           journals := journals d @ [journal],
           journal_tag_link := journal_tag_link d @ links\<rparr>,
         Inr \<lparr>status = True, message = ''Journal created successfully'', data = journal\<rparr>)
    \<and> j_user_id journal = u_id current_user
    \<and> distinct (map t_name new)
    \<and> set (map t_name new) = set (jc_tags journal_data) - set (map t_name (tags d))
    \<and> links = map (\<lambda>n. (j_id journal, t_id (the (find (\<lambda>t. t_name t = n) (tags d @ new)))))
                (jc_tags journal_data)
    \<and> (\<forall>n\<in>set (jc_tags journal_data).
          \<exists>t\<in>set (tags d @ new). t_name t = n \<and> (j_id journal, t_id t) \<in> set links)"
proof -
  let ?names = "jc_tags journal_data"
  let ?jid = "next_id (map j_id (journals d))"
  let ?journal = "\<lparr>j_id = ?jid,
                      j_user_id = u_id current_user,
                      j_title = jc_title journal_data,
                      j_body_snippet = jc_body_snippet journal_data,
                      j_html_content = jc_html_content journal_data,
                      j_is_private = jc_is_private journal_data,
                      j_image_url = jc_image_url journal_data,
                      j_is_deleted = False,
                      j_deleted_at = None,
                      j_created_at = now,
                      j_updated_at = now\<rparr>"
  from attach_tags_spec [of ?names d "[]"] obtain new where
    t: "fst (attach_tags ?names d []) = d\<lparr>tags := tags d @ new\<rparr>"
    and a: "snd (attach_tags ?names d []) =
        map (\<lambda>n. the (find (\<lambda>t. t_name t = n) (tags d @ new))) ?names"
    and dn: "distinct (map t_name new)"
    and sn: "set (map t_name new) = set ?names - set (map t_name (tags d))"
    and di: "distinct (map t_id new)"
    and fi: "set (map t_id new) \<inter> set (map t_id (tags d)) = {}"
    by auto
  let ?look = "\<lambda>n. the (find (\<lambda>t. t_name t = n) (tags d @ new))"
  let ?links = "map (\<lambda>n. (?jid, t_id (?look n))) ?names"
  have loop: "(if ?names \<noteq> [] then attach_tags ?names d [] else (d, [])) =
      (d\<lparr>tags := tags d @ new\<rparr>, map ?look ?names)"
  proof (cases "?names = []")
    case True
    with sn have "new = []" by simp
    with True show ?thesis by simp
  next
    case False
    then show ?thesis
      using t a by (simp add: prod_eq_iff)
  qed
  have found: "\<And>n. n \<in> set ?names \<Longrightarrow> ?look n \<in> set (tags d @ new) \<and> t_name (?look n) = n"
  proof -
    fix n assume "n \<in> set ?names"
    then have "n \<in> set (map t_name (tags d @ new))"
      using sn by auto
    then show "?look n \<in> set (tags d @ new) \<and> t_name (?look n) = n"
      by (rule find_name)
  qed
  have ids: "distinct (map t_id (tags d @ new))"
    using pk di fi by auto
  have inj: "inj_on (\<lambda>n. t_id (?look n)) (set ?names)"
  proof (rule inj_onI)
    fix x y assume x: "x \<in> set ?names" and y: "y \<in> set ?names"
      and eq: "t_id (?look x) = t_id (?look y)"
    have "?look x \<in> set (tags d @ new)" "?look y \<in> set (tags d @ new)"
      using found x y by simp_all
    with ids eq have "?look x = ?look y"
      by (meson distinct_map inj_onD)
    then show "x = y"
      using found x y by metis
  qed
  have dl: "distinct ?links"
    using names inj by (auto simp: distinct_map inj_on_def)
  have nl: "set ?links \<inter> set (journal_tag_link d) = {}"
    using fresh by force
  have links_eq: "map (\<lambda>tag. (j_id ?journal, t_id tag)) (map ?look ?names) = ?links"
    by simp
  have cond: "distinct (map (\<lambda>tag. (j_id ?journal, t_id tag)) (map ?look ?names))
      \<and> set (map (\<lambda>tag. (j_id ?journal, t_id tag)) (map ?look ?names))
          \<inter> set (journal_tag_link d) = {}"
    unfolding links_eq using dl nl by simp
  have res: "create_journal d now current_user journal_data =
        (d\<lparr>tags := tags d @ new,
           journals := journals d @ [?journal],
           journal_tag_link := journal_tag_link d @ ?links\<rparr>,
         Inr \<lparr>status = True, message = ''Journal created successfully'', data = ?journal\<rparr>)"
    unfolding create_journal_def Let_def loop prod.case
    using cond by (simp add: APIResponse_default)
  have assoc: "\<forall>n\<in>set ?names.
      \<exists>t\<in>set (tags d @ new). t_name t = n \<and> (j_id ?journal, t_id t) \<in> set ?links"
  proof
    fix n assume n: "n \<in> set ?names"
    have "(?jid, t_id (?look n)) \<in> set ?links"
      using n by force
    with found [OF n] show "\<exists>t\<in>set (tags d @ new). t_name t = n
        \<and> (j_id ?journal, t_id t) \<in> set ?links"
      by auto
  qed
  have user: "j_user_id ?journal = u_id current_user"
    by simp
  have links_form: "?links = map (\<lambda>n. (j_id ?journal, t_id (?look n))) ?names"
    by simp
  show ?thesis
    by (intro exI [of _ ?journal] exI [of _ new] exI [of _ ?links] conjI
        res user dn sn links_form assoc)
qed

lemma fold_update_lookup:
  "fold (\<lambda>(k, v) m. m(k \<mapsto> v)) (map (\<lambda>k. (k, f k)) ks) m0 k =
     (if k \<in> set ks then Some (f k) else m0 k)"
  by (induction ks arbitrary: m0) auto

lemma py_dict_lookup:
  "py_dict (map (\<lambda>k. (k, f k)) ks) k = (if k \<in> set ks then Some (f k) else None)"
  by (simp add: py_dict_def fold_update_lookup)

lemma count_list_map_filter:
  "count_list (map f xs) k = length (filter (\<lambda>x. f x = k) xs)"
  by (induction xs) auto

lemma count_list_zero: "k \<notin> set xs \<Longrightarrow> count_list xs k = 0"
  by (induction xs) auto

lemma length_filter_filter_in:
  "k \<in> A \<Longrightarrow> length (filter (\<lambda>x. f x \<in> A \<and> f x = k) xs) =
     length (filter (\<lambda>x. f x = k) xs)"
  by (induction xs) auto

lemma shares_map_lookup:
  assumes "journal_id \<in> set journal_ids"
  shows "dict_get (py_dict (shares_counts_result d journal_ids)) journal_id 0 =
     share_count_direct d journal_id"
proof -
  let ?keys = "map js_journal_id
                 (filter (\<lambda>s. js_journal_id s \<in> set journal_ids) (journal_shares d))"
  have cnt: "count_list ?keys journal_id = share_count_direct d journal_id"
    using assms
    by (simp add: count_list_map_filter share_count_direct_def length_filter_filter_in)
  have look: "py_dict (shares_counts_result d journal_ids) journal_id =
      (if journal_id \<in> set ?keys then Some (count_list ?keys journal_id) else None)"
    unfolding shares_counts_result_def Let_def
    using py_dict_lookup [of "\<lambda>k. count_list ?keys k" "remdups ?keys" journal_id]
    by simp
  show ?thesis
  proof (cases "journal_id \<in> set ?keys")
    case True
    then show ?thesis
      using look cnt by (simp add: dict_get_def)
  next
    case False
    then have "count_list ?keys journal_id = 0"
      by (rule count_list_zero)
    then show ?thesis
      using look cnt False by (simp add: dict_get_def)
  qed
qed

lemma favorite_ids_lookup:
  assumes "journal_id \<in> set journal_ids"
  shows "(journal_id \<in> set (user_favorites_result d journal_ids uid)) =
     is_favorite_direct d journal_id uid"
  using assms
  by (auto simp: user_favorites_result_def is_favorite_direct_def find_None_iff)

lemma feed_batched_direct:
  assumes "\<And>j. j \<in> set page \<Longrightarrow>
      dict_get shares_map (j_id j) 0 = share_count_direct d (j_id j)
    \<and> (j_id j \<in> favorite_journal_ids) = is_favorite_direct d (j_id j) uid"
  shows "feed_batched d shares_map favorite_journal_ids page feed = feed_direct d uid page feed"
  using assms
proof (induction page arbitrary: feed)
  case Nil
  then show ?case by simp
next
  case (Cons j page)
  have here: "dict_get shares_map (j_id j) 0 = share_count_direct d (j_id j)"
    "(j_id j \<in> favorite_journal_ids) = is_favorite_direct d (j_id j) uid"
    using Cons.prems [of j] by simp_all
  have rest: "\<And>feed'. feed_batched d shares_map favorite_journal_ids page feed' =
      feed_direct d uid page feed'"
    using Cons.IH Cons.prems by simp
  show ?case
    by (simp add: here rest split: sum.splits)
qed

text \<open>What the five listings and the retrieval by id do with soft-deleted rows.\<close>

lemma feed_entry_id: "feed_entry d j sc fav = Inr x \<Longrightarrow> f_id x = j_id j"
  by (auto simp: feed_entry_def split: option.splits)

lemma feed_batched_ids:
  "feed_batched d sm favs page feed = Inr out \<Longrightarrow>
   map f_id out = map f_id feed @ map j_id page"
proof (induction page arbitrary: feed)
  case Nil
  then show ?case by simp
next
  case (Cons j page)
  then show ?case
    by (auto split: sum.splits dest: feed_entry_id)
qed

lemma feed_batched_sorted_ids:
  "feed_batched_sorted d sm favs page feed = Inr out \<Longrightarrow>
   set (map f_id out) = set (map f_id feed) \<union> set (map j_id page)"
proof (induction page arbitrary: feed)
  case Nil
  then show ?case by simp
next
  case (Cons j page)
  from Cons.prems obtain x where
    x: "feed_entry d j (dict_get sm (j_id j) 0) (j_id j \<in> favs) = Inr x"
    and rest: "feed_batched_sorted d sm favs page
                 (sort_key (\<lambda>x. - f_created_at x) (feed @ [x])) = Inr out"
    by (auto split: sum.splits)
  have "set (map f_id out) =
      set (map f_id (sort_key (\<lambda>x. - f_created_at x) (feed @ [x]))) \<union> set (map j_id page)"
    by (rule Cons.IH [OF rest])
  then show ?case
    using feed_entry_id [OF x] by auto
qed

lemma offset_limit_subset: "set (offset_limit skip limit rows) \<subseteq> set rows"
  unfolding offset_limit_def
  by (meson set_drop_subset set_take_subset subset_trans)

lemma get_all_journals_live:
  assumes "get_all_journals d u skip limit = Inr r"
  shows "set (map f_id (data r)) \<subseteq> j_id ` {j \<in> set (journals d). \<not> j_is_deleted j}"
proof -
  let ?page = "offset_limit skip limit (filter (\<lambda>j. j_is_deleted j = False) (journals d))"
  have page: "set ?page \<subseteq> {j \<in> set (journals d). \<not> j_is_deleted j}"
    using offset_limit_subset [of skip limit "filter (\<lambda>j. j_is_deleted j = False) (journals d)"]
    by auto
  show ?thesis
  proof (cases "?page = []")
    case True
    with assms show ?thesis
      by (auto simp: get_all_journals_def journals_retrieved_def APIResponse_default Let_def)
  next
    case False
    with assms obtain out where
      out: "feed_batched_sorted d (py_dict (shares_counts_result d (map j_id ?page)))
              (set (user_favorites_result d (map j_id ?page) (u_id u))) ?page [] = Inr out"
      and r: "data r = out"
      by (auto simp: get_all_journals_def journals_retrieved_def APIResponse_default Let_def
          split: sum.splits)
    have "set (map f_id out) = set (map j_id ?page)"
      using feed_batched_sorted_ids [OF out] by simp
    with page r show ?thesis by auto
  qed
qed

lemma user_feed_ids:
  assumes "user_feed d u page = Inr r"
  shows "map f_id (data r) = map j_id page"
proof (cases "page = []")
  case True
  with assms show ?thesis
    by (auto simp: user_feed_def journals_retrieved_def APIResponse_default)
next
  case False
  with assms obtain out where
    out: "feed_batched d (py_dict (shares_counts_result d (map j_id page)))
            (set (user_favorites_result d (map j_id page) (u_id u))) page [] = Inr out"
    and r: "data r = out"
    by (auto simp: user_feed_def journals_retrieved_def APIResponse_default Let_def
        split: sum.splits)
  show ?thesis
    using feed_batched_ids [OF out] r by simp
qed

lemma select_user_journals_live:
  "set (select_user_journals d uid skip limit) \<subseteq>
     {j \<in> set (journals d). \<not> j_is_deleted j \<and> j_user_id j = uid}"
  using offset_limit_subset [of skip limit
      "order_by_created_at_desc
         (filter (\<lambda>j. j_is_deleted j = False \<and> j_user_id j = uid) (journals d))"]
  by (auto simp: select_user_journals_def order_by_created_at_desc_def)

lemma user_listings_live:
  assumes "get_user_journals d u skip limit = Inr r
         \<or> get_my_journals d u skip limit = Inr r
         \<or> (\<exists>uid. get_journals_by_user d u uid skip limit = Inr r)"
  shows "set (map f_id (data r)) \<subseteq> j_id ` {j \<in> set (journals d). \<not> j_is_deleted j}"
proof -
  from assms obtain uid where "user_feed d u (select_user_journals d uid skip limit) = Inr r"
    by (auto simp: get_user_journals_def get_my_journals_def get_journals_by_user_def)
  then have "map f_id (data r) = map j_id (select_user_journals d uid skip limit)"
    by (rule user_feed_ids)
  then show ?thesis
    using select_user_journals_live [of d uid skip limit] by auto
qed

lemma get_journal_by_id_deleted:
  "session_get_journal d k = Some j \<Longrightarrow> j_is_deleted j \<Longrightarrow>
   get_journal_by_id d k = Inl (HTTPException 404 ''Journal not found'')"
  "session_get_journal d k = None \<Longrightarrow>
   get_journal_by_id d k = Inl (HTTPException 404 ''Journal not found'')"
  by (simp_all add: get_journal_by_id_def journal_not_found_def HTTP_404_NOT_FOUND_def)

lemma feed_entry_Some:
  "journal_user d j = Some u \<Longrightarrow>
   \<exists>x. feed_entry d j sc fav = Inr x \<and> f_id x = j_id j \<and> f_title x = j_title j"
  by (simp add: feed_entry_def)

text \<open>
  No request is served by \<open>get_my_journals\<close> or \<open>get_journal_favorites\<close>: the
  route of \<open>get_journal_by_id\<close> stands before them in the file and matches every GET
  path of one segment.
\<close>

lemma shadowed_routes:
  "resolve m path \<noteq> Some Route_get_my_journals
 \<and> resolve m path \<noteq> Some Route_get_journal_favorites"
proof (cases path)
  case Nil
  then show ?thesis
    by (simp add: resolve_def routes_def)
next
  case (Cons s rest)
  show ?thesis
  proof (cases rest)
    case Nil
    with Cons have path: "path = [s]"
      by simp
    show ?thesis
      unfolding path by (cases m) (simp_all add: resolve_def routes_def)
  next
    case (Cons s' rest')
    with \<open>path = s # rest\<close> have path: "path = s # s' # rest'"
      by simp
    show ?thesis
      unfolding path by (cases m) (simp_all add: resolve_def routes_def)
  qed
qed

text \<open>
  An endpoint whose handler declares \<open>current_user\<close> answers with the error of the
  dependency, and leaves the store alone, when the bearer scheme or
  \<open>get_current_user\<close> raises.
\<close>

lemma with_current_user_refused:
  "bearer_scheme authorization = Inl e \<Longrightarrow>
   with_current_user bearer_scheme verify digits d authorization handler = (d, Inl e)"
  "bearer_scheme authorization = Inr c \<Longrightarrow> get_current_user verify digits d c = Inl e \<Longrightarrow>
   with_current_user bearer_scheme verify digits d authorization handler = (d, Inl e)"
  by (simp_all add: with_current_user_def)

lemma protected_endpoints_refuse:
  assumes "bearer_scheme authorization = Inl e
         \<or> (\<exists>c. bearer_scheme authorization = Inr c \<and> get_current_user verify digits d c = Inl e)"
    and "route_of call \<noteq> Route_get_journal_by_id"
    and "route_of call \<noteq> Route_get_journal_reactions"
  shows "operation bearer_scheme verify digits d now authorization call = (d, Inl e)"
  using assms by (cases call) (auto simp: with_current_user_refused)

section \<open>Claims\<close>

text \<open>
  C8. For every store, caller and page of journals, the share count read from the
  dictionary of the grouped query and the favorite flag read from the set of the caller's
  favorites equal, journal by journal, the count and the flag of the per-journal queries,
  and the feed assembled from the batched values is the feed assembled from the direct
  ones.
\<close>

theorem batched_equals_direct:
  "map (\<lambda>j. dict_get (py_dict (shares_counts_result d (map j_id page))) (j_id j) 0) page =
     map (\<lambda>j. share_count_direct d (j_id j)) page
 \<and> map (\<lambda>j. j_id j \<in> set (user_favorites_result d (map j_id page) (u_id current_user))) page =
     map (\<lambda>j. is_favorite_direct d (j_id j) (u_id current_user)) page
 \<and> feed_batched d (py_dict (shares_counts_result d (map j_id page)))
       (set (user_favorites_result d (map j_id page) (u_id current_user))) page [] =
     feed_direct d (u_id current_user) page []"
proof -
  have per: "\<And>j. j \<in> set page \<Longrightarrow>
      dict_get (py_dict (shares_counts_result d (map j_id page))) (j_id j) 0 =
        share_count_direct d (j_id j)
    \<and> (j_id j \<in> set (user_favorites_result d (map j_id page) (u_id current_user))) =
        is_favorite_direct d (j_id j) (u_id current_user)"
    by (simp add: shares_map_lookup favorite_ids_lookup)
  have a: "map (\<lambda>j. dict_get (py_dict (shares_counts_result d (map j_id page))) (j_id j) 0) page =
     map (\<lambda>j. share_count_direct d (j_id j)) page"
    using per by (intro map_cong) simp_all
  have b: "map (\<lambda>j. j_id j \<in> set (user_favorites_result d (map j_id page) (u_id current_user))) page =
     map (\<lambda>j. is_favorite_direct d (j_id j) (u_id current_user)) page"
    using per by (intro map_cong) simp_all
  show ?thesis
    by (intro conjI a b feed_batched_direct per)
qed

text \<open>
  C1. The listing by tag name has no deletion filter: in the small store journal 2 is
  soft-deleted and tagged ``gratitude'', and \<open>get_journals_by_tag\<close> returns it in
  the feed. (The other four listings select on \<open>is_deleted == False\<close> and
  \<open>get_journal_by_id\<close> answers a soft-deleted row like a missing one: lemmas
  \<open>get_all_journals_live\<close>, \<open>user_listings_live\<close> and
  \<open>get_journal_by_id_deleted\<close>.)
\<close>

theorem deleted_journal_in_tag_feed:
  "session_get_journal example_db 2 = Some journal_gone
 \<and> j_is_deleted journal_gone
 \<and> (\<exists>feed. get_journals_by_tag example_db user_b ''gratitude'' =
        Inr \<lparr>status = True,
             message = ''Journals with tag '' @ [CHR 0x27] @ ''gratitude'' @ [CHR 0x27]
                         @ '' retrieved successfully'',
             data = feed\<rparr>
      \<and> map f_id feed = [1, 2]
      \<and> map f_title feed = [''Morning'', ''Evening''])"
proof -
  have del: "j_is_deleted journal_gone"
    by (simp add: journal_gone_def)
  have tag: "find (\<lambda>t. t_name t = ''gratitude'') (tags example_db) =
      Some \<lparr>t_id = 1, t_name = ''gratitude''\<rparr>"
    by (simp add: example_db_def)
  have js: "tag_journals example_db \<lparr>t_id = 1, t_name = ''gratitude''\<rparr> =
      [journal_live, journal_gone]"
    by (simp add: tag_journals_def example_db_def journal_live_def journal_gone_def)
  have u1: "journal_user example_db journal_live = Some user_a"
    "journal_user example_db journal_gone = Some user_a"
    by (simp_all add: journal_user_def example_db_def journal_live_def journal_gone_def
        user_a_def user_b_def)
  from feed_entry_Some [OF u1(1)] obtain x1 where
    x1: "feed_entry example_db journal_live (share_count_direct example_db (j_id journal_live))
           (is_favorite_direct example_db (j_id journal_live) (u_id user_b)) = Inr x1"
    and x1f: "f_id x1 = j_id journal_live" "f_title x1 = j_title journal_live"
    by blast
  from feed_entry_Some [OF u1(2)] obtain x2 where
    x2: "feed_entry example_db journal_gone (share_count_direct example_db (j_id journal_gone))
           (is_favorite_direct example_db (j_id journal_gone) (u_id user_b)) = Inr x2"
    and x2f: "f_id x2 = j_id journal_gone" "f_title x2 = j_title journal_gone"
    by blast
  define feed where "feed = [x1, x2]"
  have f: "feed_direct example_db (u_id user_b) [journal_live, journal_gone] [] = Inr feed"
    by (simp add: x1 x2 feed_def)
  have ids: "map f_id feed = [1, 2]" "map f_title feed = [''Morning'', ''Evening'']"
    by (simp_all add: feed_def x1f x2f journal_live_def journal_gone_def)
  have res: "get_journals_by_tag example_db user_b ''gratitude'' =
        Inr \<lparr>status = True,
             message = ''Journals with tag '' @ [CHR 0x27] @ ''gratitude'' @ [CHR 0x27]
                         @ '' retrieved successfully'',
             data = feed\<rparr>"
    by (simp only: get_journals_by_tag_def tag js f option.case sum.case APIResponse_default)
  show ?thesis
    by (intro conjI exI [of _ feed] example_get_gone del res ids)
qed

text \<open>
  C6. When the journal exists and its \<open>user_id\<close> is not the caller's id,
  \<open>update_journal\<close> and \<open>delete_journal\<close> raise the 404 ``Journal not found'' and
  return the store as it was, so the target row is unchanged; a store without the row gives
  the very same error.
\<close>

theorem not_owner_not_found:
  assumes found: "session_get_journal d journal_id = Some journal"
    and other: "j_user_id journal \<noteq> u_id current_user"
  shows "update_journal d current_user journal_id journal_data =
           (d, Inl (HTTPException 404 ''Journal not found''))
       \<and> delete_journal d current_user journal_id =
           (d, Inl (HTTPException 404 ''Journal not found''))
       \<and> session_get_journal (fst (update_journal d current_user journal_id journal_data))
            journal_id = Some journal
       \<and> session_get_journal (fst (delete_journal d current_user journal_id)) journal_id
            = Some journal
       \<and> (\<forall>d0. session_get_journal d0 journal_id = None \<longrightarrow>
              snd (update_journal d0 current_user journal_id journal_data)
                = snd (update_journal d current_user journal_id journal_data)
            \<and> snd (delete_journal d0 current_user journal_id)
                = snd (delete_journal d current_user journal_id))"
  using found other
  by (simp add: update_journal_def delete_journal_def journal_not_found_def HTTP_404_NOT_FOUND_def)

theorem not_owner_not_found_witness:
  "session_get_journal example_db 1 = Some journal_live
   \<and> j_user_id journal_live \<noteq> u_id user_b
   \<and> j_is_deleted journal_live = False
   \<and> update_journal example_db user_b 1 title_only =
        (example_db, Inl (HTTPException 404 ''Journal not found''))
   \<and> delete_journal example_db user_b 1 =
        (example_db, Inl (HTTPException 404 ''Journal not found''))
   \<and> session_get_journal (fst (delete_journal example_db user_b 1)) 1 = Some journal_live
   \<and> session_get_journal empty_db 1 = None
   \<and> snd (update_journal empty_db user_b 1 title_only)
        = snd (update_journal example_db user_b 1 title_only)
   \<and> snd (delete_journal empty_db user_b 1) = snd (delete_journal example_db user_b 1)"
proof -
  have other: "j_user_id journal_live \<noteq> u_id user_b"
    by (simp add: journal_live_def user_b_def)
  have none: "session_get_journal empty_db 1 = None"
    by (simp add: session_get_journal_def empty_db_def)
  have live: "j_is_deleted journal_live = False"
    by (simp add: journal_live_def)
  show ?thesis
    using not_owner_not_found [OF example_get_live other, of title_only] other none live
      example_get_live
    by simp
qed

text \<open>
  C7. Deleting the live journal of the small store as its owner sets \<open>is_deleted\<close>,
  but \<open>deleted_at\<close> becomes the string ``CURRENT TIMESTAMP'', which is no instant:
  the handler reads no clock.
\<close>

theorem delete_journal_stamp_is_placeholder:
  "\<exists>journal'. session_get_journal (fst (delete_journal example_db user_a 1)) 1 = Some journal'
     \<and> j_is_deleted journal' = True
     \<and> j_deleted_at journal' = Some (Literal ''CURRENT_TIMESTAMP'')
     \<and> (\<forall>t. j_deleted_at journal' \<noteq> Some (Datetime t))"
proof -
  have owner: "j_user_id journal_live = u_id user_a"
    by (simp add: journal_live_def user_a_def)
  show ?thesis
    by (simp add: delete_journal_owned [OF example_get_live owner])
       (simp add: session_get_journal_def example_db_def journal_live_def)
qed

text \<open>
  C10. Journal 2 of the small store is soft-deleted and belongs to user 1. Its owner
  updates the title: the row is found, the title is stored, and then the handler raises
  the validation error of the envelope, whose \<open>status\<close> field is a \<open>bool\<close> and is
  given the text ``success''; no updated journal is returned. Deleting it again does not
  succeed either: the handler raises after the row is found, and the row stays deleted.
  Neither error is the 404, which both handlers raise exactly for a missing row and for
  the row of another user (lemmas \<open>update_journal_not_found_iff\<close> and
  \<open>delete_journal_not_found_iff\<close>).
\<close>

theorem soft_deleted_owned_raises:
  "session_get_journal example_db 2 = Some journal_gone
 \<and> j_user_id journal_gone = u_id user_a
 \<and> j_is_deleted journal_gone
 \<and> snd (update_journal example_db user_a 2 title_only) = Inl (ValidationError ''status'')
 \<and> (\<exists>journal'.
       session_get_journal (fst (update_journal example_db user_a 2 title_only)) 2 = Some journal'
     \<and> j_title journal' = ''Dawn'' \<and> j_is_deleted journal')
 \<and> isl (snd (delete_journal example_db user_a 2))
 \<and> snd (delete_journal example_db user_a 2) \<noteq> Inl (HTTPException 404 ''Journal not found'')
 \<and> (\<exists>journal'.
       session_get_journal (fst (delete_journal example_db user_a 2)) 2 = Some journal'
     \<and> j_is_deleted journal')"
proof -
  have owner: "j_user_id journal_gone = u_id user_a"
    by (simp add: journal_gone_def user_a_def)
  have deleted: "j_is_deleted journal_gone"
    by (simp add: journal_gone_def)
  have new: "apply_update journal_gone title_only = Some (journal_gone\<lparr>j_title := ''Dawn''\<rparr>)"
    by (simp add: apply_update_def set_field_def title_only_def journal_gone_def)
  note upd = update_journal_owned [OF example_get_gone owner new]
  note del = delete_journal_owned [OF example_get_gone owner]
  have u1: "snd (update_journal example_db user_a 2 title_only) = Inl (ValidationError ''status'')"
    by (simp add: upd)
  have u2: "\<exists>journal'.
       session_get_journal (fst (update_journal example_db user_a 2 title_only)) 2 = Some journal'
     \<and> j_title journal' = ''Dawn'' \<and> j_is_deleted journal'"
    by (simp add: upd)
       (simp add: session_get_journal_def example_db_def journal_live_def journal_gone_def)
  have d1: "isl (snd (delete_journal example_db user_a 2))"
    by (simp add: del)
  have d2: "snd (delete_journal example_db user_a 2) \<noteq> Inl (HTTPException 404 ''Journal not found'')"
    by (simp add: del)
  have d3: "\<exists>journal'.
       session_get_journal (fst (delete_journal example_db user_a 2)) 2 = Some journal'
     \<and> j_is_deleted journal'"
    by (simp add: del)
       (simp add: session_get_journal_def example_db_def journal_live_def journal_gone_def)
  show ?thesis
    by (intro conjI example_get_gone owner deleted u1 u2 d1 d2 d3)
qed

text \<open>
  C2. For every store, instant, caller and request body, each of the four create handlers
  commits the store with exactly one more row, and the row's actor (\<open>user_id\<close>, for a
  report \<open>reporter_id\<close>) is the caller's id. The body records have no actor field, and
  the actor stored for any other body is the same.
\<close>

theorem created_rows_carry_caller:
  "(\<exists>row. fst (create_journal_reaction d now current_user reaction_body) =
            d\<lparr>journal_reactions := journal_reactions d @ [row]\<rparr>
        \<and> jr_user_id row = u_id current_user
        \<and> jr_user_id row =
            jr_user_id (last (journal_reactions
              (fst (create_journal_reaction d now current_user reaction_body')))))
 \<and> (\<exists>row. fst (create_journal_favorite d now current_user favorite_body) =
            d\<lparr>journal_favorites := journal_favorites d @ [row]\<rparr>
        \<and> jf_user_id row = u_id current_user
        \<and> jf_user_id row =
            jf_user_id (last (journal_favorites
              (fst (create_journal_favorite d now current_user favorite_body')))))
 \<and> (\<exists>row. fst (create_journal_share d now current_user share_body) =
            d\<lparr>journal_shares := journal_shares d @ [row]\<rparr>
        \<and> js_user_id row = u_id current_user
        \<and> js_user_id row =
            js_user_id (last (journal_shares
              (fst (create_journal_share d now current_user share_body')))))
 \<and> (\<exists>row. fst (create_journal_report d now current_user report_body) =
            d\<lparr>journal_reports := journal_reports d @ [row]\<rparr>
        \<and> jp_reporter_id row = u_id current_user
        \<and> jp_reporter_id row =
            jp_reporter_id (last (journal_reports
              (fst (create_journal_report d now current_user report_body')))))"
proof (intro conjI)
  show "\<exists>row. fst (create_journal_reaction d now current_user reaction_body) =
            d\<lparr>journal_reactions := journal_reactions d @ [row]\<rparr>
        \<and> jr_user_id row = u_id current_user
        \<and> jr_user_id row =
            jr_user_id (last (journal_reactions
              (fst (create_journal_reaction d now current_user reaction_body'))))"
    by (rule exI [of _ "\<lparr>jr_id = next_id (map jr_id (journal_reactions d)),
             jr_journal_id = rc_journal_id reaction_body,
             jr_user_id = u_id current_user,
             jr_reaction_type = rc_reaction_type reaction_body,
             jr_created_at = now\<rparr>"])
       (simp add: create_journal_reaction_def Let_def)
  show "\<exists>row. fst (create_journal_favorite d now current_user favorite_body) =
            d\<lparr>journal_favorites := journal_favorites d @ [row]\<rparr>
        \<and> jf_user_id row = u_id current_user
        \<and> jf_user_id row =
            jf_user_id (last (journal_favorites
              (fst (create_journal_favorite d now current_user favorite_body'))))"
    by (rule exI [of _ "\<lparr>jf_id = next_id (map jf_id (journal_favorites d)),
             jf_journal_id = fc_journal_id favorite_body,
             jf_user_id = u_id current_user,
             jf_created_at = now\<rparr>"])
       (simp add: create_journal_favorite_def Let_def)
  show "\<exists>row. fst (create_journal_share d now current_user share_body) =
            d\<lparr>journal_shares := journal_shares d @ [row]\<rparr>
        \<and> js_user_id row = u_id current_user
        \<and> js_user_id row =
            js_user_id (last (journal_shares
              (fst (create_journal_share d now current_user share_body'))))"
    by (rule exI [of _ "\<lparr>js_id = next_id (map js_id (journal_shares d)),
             js_journal_id = sc_journal_id share_body,
             js_user_id = u_id current_user,
             js_share_type = sc_share_type share_body,
             js_shared_at = now\<rparr>"])
       (simp add: create_journal_share_def Let_def)
  show "\<exists>row. fst (create_journal_report d now current_user report_body) =
            d\<lparr>journal_reports := journal_reports d @ [row]\<rparr>
        \<and> jp_reporter_id row = u_id current_user
        \<and> jp_reporter_id row =
            jp_reporter_id (last (journal_reports
              (fst (create_journal_report d now current_user report_body'))))"
    by (rule exI [of _ "\<lparr>jp_id = next_id (map jp_id (journal_reports d)),
             jp_journal_id = pc_journal_id report_body,
             jp_reporter_id = u_id current_user,
             jp_reason = pc_reason report_body,
             jp_status = ''pending'',
             jp_created_at = now,
             jp_resolved_at = None\<rparr>"])
       (simp add: create_journal_report_def Let_def)
qed

text \<open>
  C5, as stated, fails. The payload \<open>null_title\<close> gives \<open>null\<close> for the title and
  ``run'' for the snippet of journal 1, which its owner updates: the commit is refused for
  the NOT NULL column, and the snippet, a field present in the payload, keeps its prior
  value ``walk''.
\<close>

theorem update_journal_null_title:
  "session_get_journal example_db 1 = Some journal_live
 \<and> j_user_id journal_live = u_id user_a
 \<and> ju_title null_title = Given None
 \<and> ju_body_snippet null_title = Given (Some ''run'')
 \<and> update_journal example_db user_a 1 null_title = (example_db, Inl (IntegrityError ''journals''))
 \<and> map_option j_body_snippet
      (session_get_journal (fst (update_journal example_db user_a 1 null_title)) 1)
      = Some (Some ''walk'')"
proof -
  have owner: "j_user_id journal_live = u_id user_a"
    by (simp add: journal_live_def user_a_def)
  have none: "apply_update journal_live null_title = None"
    by (simp add: apply_update_None null_title_def)
  have res: "update_journal example_db user_a 1 null_title =
      (example_db, Inl (IntegrityError ''journals''))"
    by (rule update_journal_refused [OF example_get_live owner none])
  have old: "map_option j_body_snippet
      (session_get_journal (fst (update_journal example_db user_a 1 null_title)) 1)
      = Some (Some ''walk'')"
    by (simp add: res example_get_live) (simp add: journal_live_def)
  show ?thesis
    using example_get_live owner res old by (simp add: null_title_def)
qed

text \<open>
  C5, amended. For every journal owned by the caller and every partial update payload
  that gives no \<open>null\<close> for \<open>title\<close> or \<open>is_private\<close>, \<open>update_journal\<close>
  replaces the row by one that carries the given value in every field the payload gives,
  and the prior value in every field the payload leaves unset and in every column the
  payload cannot name. A payload that gives \<open>null\<close> for \<open>title\<close> or
  \<open>is_private\<close> is refused by the commit and the store stays as it was.
\<close>

theorem update_journal_partial:
  assumes found: "session_get_journal d journal_id = Some journal"
    and owner: "j_user_id journal = u_id current_user"
  shows
   "(ju_title journal_data \<noteq> Given None \<and> ju_is_private journal_data \<noteq> Given None \<longrightarrow>
      (\<exists>journal'.
          fst (update_journal d current_user journal_id journal_data) =
            d\<lparr>journals := put_row journal' (journals d)\<rparr>
        \<and> session_get_journal (fst (update_journal d current_user journal_id journal_data))
             journal_id = Some journal'
        \<and> (case ju_title journal_data of
              Unset \<Rightarrow> j_title journal' = j_title journal
            | Given v \<Rightarrow> Some (j_title journal') = v)
        \<and> j_body_snippet journal' =
            (case ju_body_snippet journal_data of
               Unset \<Rightarrow> j_body_snippet journal | Given v \<Rightarrow> v)
        \<and> j_html_content journal' =
            (case ju_html_content journal_data of
               Unset \<Rightarrow> j_html_content journal | Given v \<Rightarrow> v)
        \<and> (case ju_is_private journal_data of
              Unset \<Rightarrow> j_is_private journal' = j_is_private journal
            | Given v \<Rightarrow> Some (j_is_private journal') = v)
        \<and> j_image_url journal' =
            (case ju_image_url journal_data of
               Unset \<Rightarrow> j_image_url journal | Given v \<Rightarrow> v)
        \<and> j_id journal' = j_id journal \<and> j_user_id journal' = j_user_id journal
        \<and> j_is_deleted journal' = j_is_deleted journal
        \<and> j_deleted_at journal' = j_deleted_at journal
        \<and> j_created_at journal' = j_created_at journal
        \<and> j_updated_at journal' = j_updated_at journal))
  \<and> (ju_title journal_data = Given None \<or> ju_is_private journal_data = Given None \<longrightarrow>
        update_journal d current_user journal_id journal_data =
          (d, Inl (IntegrityError ''journals'')))"
proof (intro conjI impI)
  assume given: "ju_title journal_data \<noteq> Given None \<and> ju_is_private journal_data \<noteq> Given None"
  then have "apply_update journal journal_data \<noteq> None"
    by (simp add: apply_update_None)
  then obtain j where j: "apply_update journal journal_data = Some j"
    by blast
  have idj: "j_id journal = journal_id"
    using found unfolding session_get_journal_def by (rule find_Some_id)
  have res: "update_journal d current_user journal_id journal_data =
      (d\<lparr>journals := put_row j (journals d)\<rparr>, Inl (ValidationError ''status''))"
    by (rule update_journal_owned [OF found owner j])
  have st: "fst (update_journal d current_user journal_id journal_data) =
      d\<lparr>journals := put_row j (journals d)\<rparr>"
    by (simp add: res)
  have stored: "session_get_journal (fst (update_journal d current_user journal_id journal_data))
                  journal_id = Some j"
    using found idj apply_update_id [OF j]
    by (simp add: res session_get_journal_def find_put_row_same)
  have title: "(case ju_title journal_data of
              Unset \<Rightarrow> j_title j = j_title journal
            | Given v \<Rightarrow> Some (j_title j) = v)"
    using j by (auto simp: apply_update_def set_field_def split: option.splits field.splits)
  have privacy: "(case ju_is_private journal_data of
              Unset \<Rightarrow> j_is_private j = j_is_private journal
            | Given v \<Rightarrow> Some (j_is_private j) = v)"
    using j by (auto simp: apply_update_def set_field_def split: option.splits field.splits)
  have fields: "j_body_snippet j =
            (case ju_body_snippet journal_data of
               Unset \<Rightarrow> j_body_snippet journal | Given v \<Rightarrow> v)"
    "j_html_content j =
            (case ju_html_content journal_data of
               Unset \<Rightarrow> j_html_content journal | Given v \<Rightarrow> v)"
    "j_image_url j =
            (case ju_image_url journal_data of
               Unset \<Rightarrow> j_image_url journal | Given v \<Rightarrow> v)"
    using j by (auto simp: apply_update_def set_field_def split: option.splits)
  have frame: "j_id j = j_id journal" "j_user_id j = j_user_id journal"
    "j_is_deleted j = j_is_deleted journal" "j_deleted_at j = j_deleted_at journal"
    "j_created_at j = j_created_at journal" "j_updated_at j = j_updated_at journal"
    using j by (auto simp: apply_update_def split: option.splits)
  show "\<exists>journal'.
          fst (update_journal d current_user journal_id journal_data) =
            d\<lparr>journals := put_row journal' (journals d)\<rparr>
        \<and> session_get_journal (fst (update_journal d current_user journal_id journal_data))
             journal_id = Some journal'
        \<and> (case ju_title journal_data of
              Unset \<Rightarrow> j_title journal' = j_title journal
            | Given v \<Rightarrow> Some (j_title journal') = v)
        \<and> j_body_snippet journal' =
            (case ju_body_snippet journal_data of
               Unset \<Rightarrow> j_body_snippet journal | Given v \<Rightarrow> v)
        \<and> j_html_content journal' =
            (case ju_html_content journal_data of
               Unset \<Rightarrow> j_html_content journal | Given v \<Rightarrow> v)
        \<and> (case ju_is_private journal_data of
              Unset \<Rightarrow> j_is_private journal' = j_is_private journal
            | Given v \<Rightarrow> Some (j_is_private journal') = v)
        \<and> j_image_url journal' =
            (case ju_image_url journal_data of
               Unset \<Rightarrow> j_image_url journal | Given v \<Rightarrow> v)
        \<and> j_id journal' = j_id journal \<and> j_user_id journal' = j_user_id journal
        \<and> j_is_deleted journal' = j_is_deleted journal
        \<and> j_deleted_at journal' = j_deleted_at journal
        \<and> j_created_at journal' = j_created_at journal
        \<and> j_updated_at journal' = j_updated_at journal"
    by (intro exI [of _ j] conjI st stored title privacy fields frame)
next
  assume "ju_title journal_data = Given None \<or> ju_is_private journal_data = Given None"
  then have "apply_update journal journal_data = None"
    by (simp add: apply_update_None)
  then show "update_journal d current_user journal_id journal_data =
      (d, Inl (IntegrityError ''journals''))"
    by (rule update_journal_refused [OF found owner])
qed

theorem update_journal_partial_witness:
  "session_get_journal example_db 1 = Some journal_live
   \<and> j_user_id journal_live = u_id user_a
   \<and> ju_title title_only \<noteq> Given None \<and> ju_is_private title_only \<noteq> Given None
   \<and> (\<exists>journal'.
         session_get_journal (fst (update_journal example_db user_a 1 title_only)) 1 = Some journal'
       \<and> j_title journal' = ''Dawn''
       \<and> j_body_snippet journal' = Some ''walk''
       \<and> j_is_private journal' = False
       \<and> j_is_deleted journal' = False)
   \<and> ju_title null_title = Given None
   \<and> update_journal example_db user_a 1 null_title = (example_db, Inl (IntegrityError ''journals''))"
proof -
  have owner: "j_user_id journal_live = u_id user_a"
    by (simp add: journal_live_def user_a_def)
  have given: "ju_title title_only \<noteq> Given None \<and> ju_is_private title_only \<noteq> Given None"
    by (simp add: title_only_def)
  have null: "ju_title null_title = Given None"
    by (simp add: null_title_def)
  note T = update_journal_partial [OF example_get_live owner]
  from T [of title_only] given
  obtain journal' where
    "session_get_journal (fst (update_journal example_db user_a 1 title_only)) 1 = Some journal'"
    "(case ju_title title_only of
        Unset \<Rightarrow> j_title journal' = j_title journal_live
      | Given v \<Rightarrow> Some (j_title journal') = v)"
    "j_body_snippet journal' =
       (case ju_body_snippet title_only of Unset \<Rightarrow> j_body_snippet journal_live | Given v \<Rightarrow> v)"
    "(case ju_is_private title_only of
        Unset \<Rightarrow> j_is_private journal' = j_is_private journal_live
      | Given v \<Rightarrow> Some (j_is_private journal') = v)"
    "j_is_deleted journal' = j_is_deleted journal_live"
    by blast
  then have a: "session_get_journal (fst (update_journal example_db user_a 1 title_only)) 1 = Some journal'
       \<and> j_title journal' = ''Dawn''
       \<and> j_body_snippet journal' = Some ''walk''
       \<and> j_is_private journal' = False
       \<and> j_is_deleted journal' = False"
    by (simp add: title_only_def journal_live_def)
  have b: "update_journal example_db user_a 1 null_title =
      (example_db, Inl (IntegrityError ''journals''))"
    using T [of null_title] null by simp
  show ?thesis
    using example_get_live owner given a null b by blast
qed

text \<open>
  C3. \<open>get_current_user\<close> raises a 401 when the scheme is not ``bearer'' in any
  letter case, when the token does not decode, when the claims have no \<open>sub\<close>, when
  \<open>sub\<close> is not the text of an integer (the empty text is none), and when no user
  has the parsed id; in the one remaining case it returns the first user row with that
  id. The 401 of a token that does not decode is raised by \<open>decode_access_token\<close>,
  which is modelled from the spec.
\<close>

theorem get_current_user_cases:
   "(lower (scheme c) \<noteq> ''bearer'' \<longrightarrow>
       get_current_user verify digits d c =
         Inl (HTTPException 401 ''Invalid authentication scheme''))
  \<and> (lower (scheme c) = ''bearer'' \<and> verify (credentials c) = Inl detail \<longrightarrow>
       get_current_user verify digits d c = Inl (HTTPException 401 detail))
  \<and> (lower (scheme c) = ''bearer'' \<and> verify (credentials c) = Inr cl
       \<and> cl ''sub'' = None \<longrightarrow>
       get_current_user verify digits d c =
         Inl (HTTPException 401 ''Invalid token subject''))
  \<and> (lower (scheme c) = ''bearer'' \<and> verify (credentials c) = Inr cl
       \<and> cl ''sub'' = Some s \<and> py_int digits s = None \<longrightarrow>
       get_current_user verify digits d c =
         Inl (HTTPException 401 ''Invalid token subject''))
  \<and> (lower (scheme c) = ''bearer'' \<and> verify (credentials c) = Inr cl
       \<and> cl ''sub'' = Some s \<and> py_int digits s = Some n
       \<and> find (\<lambda>u. u_id u = n) (users d) = None \<longrightarrow>
       get_current_user verify digits d c = Inl (HTTPException 401 ''User not found''))
  \<and> (lower (scheme c) = ''bearer'' \<and> verify (credentials c) = Inr cl
       \<and> cl ''sub'' = Some s \<and> py_int digits s = Some n
       \<and> find (\<lambda>u. u_id u = n) (users d) = Some user \<longrightarrow>
       get_current_user verify digits d c = Inr user)"
proof (intro conjI impI)
  assume "lower (scheme c) \<noteq> ''bearer''"
  then show "get_current_user verify digits d c =
         Inl (HTTPException 401 ''Invalid authentication scheme'')"
    by (simp add: get_current_user_def unauthorized_def HTTP_401_UNAUTHORIZED_def)
next
  assume "lower (scheme c) = ''bearer'' \<and> verify (credentials c) = Inl detail"
  then show "get_current_user verify digits d c = Inl (HTTPException 401 detail)"
    by (simp add: get_current_user_def decode_access_token_def unauthorized_def
        HTTP_401_UNAUTHORIZED_def)
next
  assume "lower (scheme c) = ''bearer'' \<and> verify (credentials c) = Inr cl
       \<and> cl ''sub'' = None"
  then show "get_current_user verify digits d c =
         Inl (HTTPException 401 ''Invalid token subject'')"
    by (simp add: get_current_user_def decode_access_token_def unauthorized_def
        HTTP_401_UNAUTHORIZED_def)
next
  assume "lower (scheme c) = ''bearer'' \<and> verify (credentials c) = Inr cl
       \<and> cl ''sub'' = Some s \<and> py_int digits s = None"
  then show "get_current_user verify digits d c =
         Inl (HTTPException 401 ''Invalid token subject'')"
    by (simp add: get_current_user_def decode_access_token_def unauthorized_def
        HTTP_401_UNAUTHORIZED_def)
next
  assume h: "lower (scheme c) = ''bearer'' \<and> verify (credentials c) = Inr cl
       \<and> cl ''sub'' = Some s \<and> py_int digits s = Some n
       \<and> find (\<lambda>u. u_id u = n) (users d) = None"
  then have "s \<noteq> []"
    using py_int_empty by auto
  with h show "get_current_user verify digits d c =
      Inl (HTTPException 401 ''User not found'')"
    by (simp add: get_current_user_def decode_access_token_def unauthorized_def
        HTTP_401_UNAUTHORIZED_def)
next
  assume h: "lower (scheme c) = ''bearer'' \<and> verify (credentials c) = Inr cl
       \<and> cl ''sub'' = Some s \<and> py_int digits s = Some n
       \<and> find (\<lambda>u. u_id u = n) (users d) = Some user"
  then have "s \<noteq> []"
    using py_int_empty by auto
  with h show "get_current_user verify digits d c = Inr user"
    by (simp add: get_current_user_def decode_access_token_def)
qed

theorem get_current_user_cases_witness:
  "get_current_user example_verify 4300 example_db
     \<lparr>scheme = ''Basic'', credentials = ''token-a''\<rparr>
     = Inl (HTTPException 401 ''Invalid authentication scheme'')
 \<and> get_current_user example_verify 4300 example_db
     \<lparr>scheme = ''Bearer'', credentials = ''forged''\<rparr>
     = Inl (HTTPException 401 ''Could not validate credentials'')
 \<and> get_current_user example_verify 4300 example_db
     \<lparr>scheme = ''Bearer'', credentials = ''token-none''\<rparr>
     = Inl (HTTPException 401 ''Invalid token subject'')
 \<and> get_current_user example_verify 4300 example_db
     \<lparr>scheme = ''Bearer'', credentials = ''token-empty''\<rparr>
     = Inl (HTTPException 401 ''Invalid token subject'')
 \<and> get_current_user example_verify 4300 example_db
     \<lparr>scheme = ''Bearer'', credentials = ''token-word''\<rparr>
     = Inl (HTTPException 401 ''Invalid token subject'')
 \<and> get_current_user example_verify 4300 example_db
     \<lparr>scheme = ''Bearer'', credentials = ''token-separator''\<rparr>
     = Inl (HTTPException 401 ''Invalid token subject'')
 \<and> get_current_user example_verify 4300 example_db
     \<lparr>scheme = ''Bearer'', credentials = ''token-ghost''\<rparr>
     = Inl (HTTPException 401 ''User not found'')
 \<and> get_current_user example_verify 4300 example_db
     \<lparr>scheme = ''Bearer'', credentials = ''token-a''\<rparr>
     = Inr user_a
 \<and> get_current_user example_verify 4300 example_db
     \<lparr>scheme = ''bEARER'', credentials = ''token-padded''\<rparr>
     = Inr user_b"
proof -
  note T = get_current_user_cases [of _ example_verify]
  have c1: "get_current_user example_verify 4300 example_db
      \<lparr>scheme = ''Basic'', credentials = ''token-a''\<rparr>
     = Inl (HTTPException 401 ''Invalid authentication scheme'')"
    using T [where c = "\<lparr>scheme = ''Basic'', credentials = ''token-a''\<rparr>" and d = example_db
        and digits = 4300]
    by (simp add: lower_examples)
  have c2: "get_current_user example_verify 4300 example_db
      \<lparr>scheme = ''Bearer'', credentials = ''forged''\<rparr>
     = Inl (HTTPException 401 ''Could not validate credentials'')"
    using T [where c = "\<lparr>scheme = ''Bearer'', credentials = ''forged''\<rparr>" and d = example_db
        and digits = 4300 and detail = "''Could not validate credentials''"]
    by (simp add: lower_examples example_verify_def)
  have c3: "get_current_user example_verify 4300 example_db
      \<lparr>scheme = ''Bearer'', credentials = ''token-none''\<rparr>
     = Inl (HTTPException 401 ''Invalid token subject'')"
    using T [where c = "\<lparr>scheme = ''Bearer'', credentials = ''token-none''\<rparr>" and d = example_db
        and digits = 4300 and cl = Map.empty]
    by (simp add: lower_examples example_verify_def)
  have c4: "get_current_user example_verify 4300 example_db
      \<lparr>scheme = ''Bearer'', credentials = ''token-empty''\<rparr>
     = Inl (HTTPException 401 ''Invalid token subject'')"
    using T [where c = "\<lparr>scheme = ''Bearer'', credentials = ''token-empty''\<rparr>" and d = example_db
        and digits = 4300 and cl = "[''sub'' \<mapsto> '''']" and s = "''''"]
    by (simp add: lower_examples example_verify_def py_int_empty)
  have c5: "get_current_user example_verify 4300 example_db
      \<lparr>scheme = ''Bearer'', credentials = ''token-word''\<rparr>
     = Inl (HTTPException 401 ''Invalid token subject'')"
    using T [where c = "\<lparr>scheme = ''Bearer'', credentials = ''token-word''\<rparr>" and d = example_db
        and digits = 4300 and cl = "[''sub'' \<mapsto> ''abc'']" and s = "''abc''"]
    by (simp add: lower_examples example_verify_def py_int_examples)
  have c6: "get_current_user example_verify 4300 example_db
      \<lparr>scheme = ''Bearer'', credentials = ''token-separator''\<rparr>
     = Inl (HTTPException 401 ''Invalid token subject'')"
    using T [where c = "\<lparr>scheme = ''Bearer'', credentials = ''token-separator''\<rparr>"
        and d = example_db and digits = 4300
        and cl = "[''sub'' \<mapsto> [CHR 0x1F, CHR ''2'']]" and s = "[CHR 0x1F, CHR ''2'']"]
    by (simp add: lower_examples example_verify_def py_int_examples)
  have c7: "get_current_user example_verify 4300 example_db
      \<lparr>scheme = ''Bearer'', credentials = ''token-ghost''\<rparr>
     = Inl (HTTPException 401 ''User not found'')"
    using T [where c = "\<lparr>scheme = ''Bearer'', credentials = ''token-ghost''\<rparr>" and d = example_db
        and digits = 4300 and cl = "[''sub'' \<mapsto> ''99'']" and s = "''99''" and n = 99]
    by (simp add: lower_examples example_verify_def py_int_examples example_users)
  have c8: "get_current_user example_verify 4300 example_db
      \<lparr>scheme = ''Bearer'', credentials = ''token-a''\<rparr> = Inr user_a"
    using T [where c = "\<lparr>scheme = ''Bearer'', credentials = ''token-a''\<rparr>" and d = example_db
        and digits = 4300 and cl = "[''sub'' \<mapsto> ''1'']" and s = "''1''" and n = 1
        and user = user_a]
    by (simp add: lower_examples example_verify_def py_int_examples example_users)
  have c9: "get_current_user example_verify 4300 example_db
      \<lparr>scheme = ''bEARER'', credentials = ''token-padded''\<rparr> = Inr user_b"
    using T [where c = "\<lparr>scheme = ''bEARER'', credentials = ''token-padded''\<rparr>"
        and d = example_db and digits = 4300
        and cl = "[''sub'' \<mapsto> [CHR '' '', CHR ''2'', CHR 0x0A]]"
        and s = "[CHR '' '', CHR ''2'', CHR 0x0A]" and n = 2 and user = user_b]
    by (simp add: lower_examples example_verify_def py_int_examples example_users)
  show ?thesis
    by (intro conjI c1 c2 c3 c4 c5 c6 c7 c8 c9)
qed

text \<open>
  C9. \<open>get_journal_reactions\<close> declares no \<open>current_user\<close> either. A GET of
  \<open>journal-reactions/1\<close> with no \<open>Authorization\<close> header resolves to it and is not
  refused: the handler runs, and what the request gets is the handler's own result (the
  validation error of the envelope), while the listing by tag answers the same request
  with the error of the bearer scheme. Moreover a GET of \<open>my\<close> or of
  \<open>journal-favorites\<close> is served by \<open>get_journal_by_id\<close>, the one handler that
  asks for no caller.
\<close>

theorem reactions_route_asks_no_caller:
  "resolve GET [''journal-reactions'', ''1''] = Some (route_of (GetJournalReactions 1))
 \<and> example_bearer None = Inl (HTTPException 403 ''Not authenticated'')
 \<and> operation example_bearer example_verify 4300 example_db 0 None (GetJournalReactions 1) =
     (example_db, as_data DReactions (get_journal_reactions example_db 1))
 \<and> get_journal_reactions example_db 1 = Inl (ValidationError ''status'')
 \<and> resolve GET [''tags'', ''gratitude''] = Some (route_of (GetJournalsByTag ''gratitude''))
 \<and> operation example_bearer example_verify 4300 example_db 0 None (GetJournalsByTag ''gratitude'') =
     (example_db, Inl (HTTPException 403 ''Not authenticated''))
 \<and> resolve GET [''my''] = Some Route_get_journal_by_id
 \<and> resolve GET [''journal-favorites''] = Some Route_get_journal_by_id"
proof -
  have r1: "resolve GET [''journal-reactions'', ''1''] = Some (route_of (GetJournalReactions 1))"
    by (simp add: resolve_def routes_def)
  have r2: "resolve GET [''tags'', ''gratitude''] = Some (route_of (GetJournalsByTag ''gratitude''))"
    by (simp add: resolve_def routes_def)
  have r3: "resolve GET [''my''] = Some Route_get_journal_by_id"
    by (simp add: resolve_def routes_def)
  have r4: "resolve GET [''journal-favorites''] = Some Route_get_journal_by_id"
    by (simp add: resolve_def routes_def)
  have b: "example_bearer None = Inl (HTTPException 403 ''Not authenticated'')"
    by (simp add: example_bearer_def)
  have o1: "operation example_bearer example_verify 4300 example_db 0 None (GetJournalReactions 1) =
     (example_db, as_data DReactions (get_journal_reactions example_db 1))"
    by simp
  have h: "get_journal_reactions example_db 1 = Inl (ValidationError ''status'')"
    by (simp add: get_journal_reactions_def APIResponse_success)
  have o2: "operation example_bearer example_verify 4300 example_db 0 None
      (GetJournalsByTag ''gratitude'') =
     (example_db, Inl (HTTPException 403 ''Not authenticated''))"
    by (simp add: with_current_user_def b)
  show ?thesis
    by (intro conjI r1 b o1 h r2 o2 r3 r4)
qed

text \<open>
  C4. The payload \<open>tagged_entry\<close> names the existing tag ``gratitude'' once and the
  new tag ``morning'' twice. The loop adds ``morning'' once and finds it again, so
  \<open>journal.tags\<close> holds it twice; the commit is refused for the two equal link rows,
  and neither the journal nor the tag nor a link is stored. With each name given once
  (\<open>tagged_once\<close>) the same request goes through: one new tag row, the existing row
  reused, and both linked to the new journal; lemma \<open>create_journal_distinct_tags\<close>
  has this for every payload that names each tag once.
\<close>

theorem repeated_tag_name_refused:
  "jc_tags tagged_entry = [''gratitude'', ''morning'', ''morning'']
 \<and> snd (attach_tags (jc_tags tagged_entry) example_db []) =
     [\<lparr>t_id = 1, t_name = ''gratitude''\<rparr>, \<lparr>t_id = 2, t_name = ''morning''\<rparr>,
      \<lparr>t_id = 2, t_name = ''morning''\<rparr>]
 \<and> create_journal example_db 30 user_b tagged_entry =
     (example_db, Inl (IntegrityError ''journal_tag_link''))
 \<and> jc_tags tagged_once = [''gratitude'', ''morning'']
 \<and> tags (fst (create_journal example_db 30 user_b tagged_once)) =
     [\<lparr>t_id = 1, t_name = ''gratitude''\<rparr>, \<lparr>t_id = 2, t_name = ''morning''\<rparr>]
 \<and> journal_tag_link (fst (create_journal example_db 30 user_b tagged_once)) =
     [(1, 1), (2, 1), (3, 1), (3, 2)]
 \<and> map j_id (journals (fst (create_journal example_db 30 user_b tagged_once))) = [1, 2, 3]
 \<and> map_sum id (\<lambda>r. j_id (data r)) (snd (create_journal example_db 30 user_b tagged_once)) =
     Inr 3"
proof -
  have ids: "next_id (map j_id (journals example_db)) = 3"
    "next_id [1] = 2"
    by (simp_all add: next_id_def example_db_def journal_live_def journal_gone_def)
  have tags: "tags example_db = [\<lparr>t_id = 1, t_name = ''gratitude''\<rparr>]"
    and links: "journal_tag_link example_db = [(1, 1), (2, 1)]"
    by (simp_all add: example_db_def)
  have loop2: "attach_tags [''gratitude'', ''morning'', ''morning''] example_db [] =
      (example_db\<lparr>tags := [\<lparr>t_id = 1, t_name = ''gratitude''\<rparr>,
                              \<lparr>t_id = 2, t_name = ''morning''\<rparr>]\<rparr>,
       [\<lparr>t_id = 1, t_name = ''gratitude''\<rparr>, \<lparr>t_id = 2, t_name = ''morning''\<rparr>,
        \<lparr>t_id = 2, t_name = ''morning''\<rparr>])"
    by (simp add: tags ids Let_def)
  have loop1: "attach_tags [''gratitude'', ''morning''] example_db [] =
      (example_db\<lparr>tags := [\<lparr>t_id = 1, t_name = ''gratitude''\<rparr>,
                              \<lparr>t_id = 2, t_name = ''morning''\<rparr>]\<rparr>,
       [\<lparr>t_id = 1, t_name = ''gratitude''\<rparr>, \<lparr>t_id = 2, t_name = ''morning''\<rparr>])"
    by (simp add: tags ids Let_def)
  have n2: "jc_tags tagged_entry = [''gratitude'', ''morning'', ''morning'']"
    by (simp add: tagged_entry_def)
  have n1: "jc_tags tagged_once = [''gratitude'', ''morning'']"
    by (simp add: tagged_once_def)
  have a: "snd (attach_tags (jc_tags tagged_entry) example_db []) =
     [\<lparr>t_id = 1, t_name = ''gratitude''\<rparr>, \<lparr>t_id = 2, t_name = ''morning''\<rparr>,
      \<lparr>t_id = 2, t_name = ''morning''\<rparr>]"
    by (simp only: n2 loop2 snd_conv)
  have refused: "create_journal example_db 30 user_b tagged_entry =
     (example_db, Inl (IntegrityError ''journal_tag_link''))"
    by (simp add: create_journal_def n2 loop2 ids links Let_def del: attach_tags.simps)
  have once: "create_journal example_db 30 user_b tagged_once =
     (example_db\<lparr>tags := [\<lparr>t_id = 1, t_name = ''gratitude''\<rparr>,
                             \<lparr>t_id = 2, t_name = ''morning''\<rparr>],
                   journals := journals example_db @
                     [\<lparr>j_id = 3, j_user_id = u_id user_b, j_title = jc_title tagged_once,
                       j_body_snippet = jc_body_snippet tagged_once,
                       j_html_content = jc_html_content tagged_once,
                       j_is_private = jc_is_private tagged_once,
                       j_image_url = jc_image_url tagged_once,
                       j_is_deleted = False, j_deleted_at = None,
                       j_created_at = 30, j_updated_at = 30\<rparr>],
                   journal_tag_link := [(1, 1), (2, 1), (3, 1), (3, 2)]\<rparr>,
      Inr \<lparr>status = True, message = ''Journal created successfully'',
           data = \<lparr>j_id = 3, j_user_id = u_id user_b, j_title = jc_title tagged_once,
                    j_body_snippet = jc_body_snippet tagged_once,
                    j_html_content = jc_html_content tagged_once,
                    j_is_private = jc_is_private tagged_once,
                    j_image_url = jc_image_url tagged_once,
                    j_is_deleted = False, j_deleted_at = None,
                    j_created_at = 30, j_updated_at = 30\<rparr>\<rparr>)"
    by (simp add: create_journal_def n1 loop1 ids links Let_def APIResponse_default
        del: attach_tags.simps)
  have t: "tags (fst (create_journal example_db 30 user_b tagged_once)) =
     [\<lparr>t_id = 1, t_name = ''gratitude''\<rparr>, \<lparr>t_id = 2, t_name = ''morning''\<rparr>]"
    by (simp add: once)
  have l: "journal_tag_link (fst (create_journal example_db 30 user_b tagged_once)) =
     [(1, 1), (2, 1), (3, 1), (3, 2)]"
    by (simp add: once)
  have j: "map j_id (journals (fst (create_journal example_db 30 user_b tagged_once))) = [1, 2, 3]"
    by (simp add: once) (simp add: example_db_def journal_live_def journal_gone_def)
  have r: "map_sum id (\<lambda>r. j_id (data r)) (snd (create_journal example_db 30 user_b tagged_once)) =
     Inr 3"
    by (simp add: once)
  show ?thesis
    by (intro conjI n2 a refused n1 t l j r)
qed

end
